theory Spec2Isabelle
  imports Complex_Main "HOL-Library.Char_ord" "HOL-Library.List_Lexorder"
begin

section \<open>Numbers, arrays and errors\<close>

text \<open>
  A numpy scalar is a finite number, one of the two infinities, or NaN. The finite values
  are reals: rounding and overflow of the binary formats are left out, the special values
  and the way they propagate are kept, since the control flow of \<^verbatim>\<open>fit.py\<close>
  branches on them.
\<close>

datatype fl = Fin real | PInf | NInf | NaN

fun isnan :: "fl \<Rightarrow> bool" where
  "isnan NaN = True"
| "isnan _ = False"

fun isfinite :: "fl \<Rightarrow> bool" where
  "isfinite (Fin _) = True"
| "isfinite _ = False"

text \<open>\<^verbatim>\<open>a < b\<close> on scalars: every comparison with NaN is false.\<close>

fun fl_less :: "fl \<Rightarrow> fl \<Rightarrow> bool" where
  "fl_less NaN _ = False"
| "fl_less _ NaN = False"
| "fl_less (Fin a) (Fin b) = (a < b)"
| "fl_less (Fin _) PInf = True"
| "fl_less (Fin _) NInf = False"
| "fl_less PInf _ = False"
| "fl_less NInf NInf = False"
| "fl_less NInf _ = True"

fun fl_le :: "fl \<Rightarrow> fl \<Rightarrow> bool" where
  "fl_le NaN _ = False"
| "fl_le _ NaN = False"
| "fl_le (Fin a) (Fin b) = (a \<le> b)"
| "fl_le (Fin _) PInf = True"
| "fl_le (Fin _) NInf = False"
| "fl_le PInf PInf = True"
| "fl_le PInf _ = False"
| "fl_le NInf _ = True"

fun fl_neg :: "fl \<Rightarrow> fl" where
  "fl_neg (Fin a) = Fin (- a)"
| "fl_neg PInf = NInf"
| "fl_neg NInf = PInf"
| "fl_neg NaN = NaN"

fun fl_add :: "fl \<Rightarrow> fl \<Rightarrow> fl" where
  "fl_add NaN _ = NaN"
| "fl_add _ NaN = NaN"
| "fl_add (Fin a) (Fin b) = Fin (a + b)"
| "fl_add PInf NInf = NaN"
| "fl_add NInf PInf = NaN"
| "fl_add PInf _ = PInf"
| "fl_add NInf _ = NInf"
| "fl_add (Fin _) b = b"

definition fl_sub :: "fl \<Rightarrow> fl \<Rightarrow> fl" where
  "fl_sub a b = fl_add a (fl_neg b)"

fun fl_mul :: "fl \<Rightarrow> fl \<Rightarrow> fl" where
  "fl_mul NaN _ = NaN"
| "fl_mul _ NaN = NaN"
| "fl_mul (Fin a) (Fin b) = Fin (a * b)"
| "fl_mul (Fin a) PInf = (if a = 0 then NaN else if 0 < a then PInf else NInf)"
| "fl_mul (Fin a) NInf = (if a = 0 then NaN else if 0 < a then NInf else PInf)"
| "fl_mul PInf (Fin b) = (if b = 0 then NaN else if 0 < b then PInf else NInf)"
| "fl_mul NInf (Fin b) = (if b = 0 then NaN else if 0 < b then NInf else PInf)"
| "fl_mul PInf PInf = PInf"
| "fl_mul PInf NInf = NInf"
| "fl_mul NInf PInf = NInf"
| "fl_mul NInf NInf = PInf"

text \<open>The largest finite double, \<open>(2\<^sup>5\<^sup>3 - 1) \<sqdot> 2\<^sup>9\<^sup>7\<^sup>1\<close>.\<close>

definition float_max :: real where
  "float_max = (2 ^ 53 - 1) * 2 ^ 971"

text \<open>\<^verbatim>\<open>np.nan_to_num\<close>: NaN becomes zero, an infinity the finite extreme of its sign.\<close>

fun nan_to_num :: "fl \<Rightarrow> fl" where
  "nan_to_num NaN = Fin 0"
| "nan_to_num PInf = Fin float_max"
| "nan_to_num NInf = Fin (- float_max)"
| "nan_to_num (Fin a) = Fin a"

text \<open>
  An \<^verbatim>\<open>ndarray\<close> is its shape and its entries in row-major order; the entries of a
  well-formed array are as many as the product of the shape.
\<close>

record ndarray =
  shape :: "nat list"
  vals :: "fl list"

definition ndim :: "ndarray \<Rightarrow> nat" where
  "ndim a = length (shape a)"

definition wf_array :: "ndarray \<Rightarrow> bool" where
  "wf_array a = (length (vals a) = prod_list (shape a))"

text \<open>\<^verbatim>\<open>np.isnan(a).any()\<close>\<close>

definition any_nan :: "ndarray \<Rightarrow> bool" where
  "any_nan a = list_ex isnan (vals a)"

datatype error =
    AssertionError
  | ValueError string
  | KeyError string
  | IndexError
  | AttributeError
  | LinAlgError
  | OverflowError
  | EngineError string

text \<open>Sequencing of a step that may raise.\<close>

fun and_then :: "error + 'a \<Rightarrow> ('a \<Rightarrow> error + 'b) \<Rightarrow> error + 'b" where
  "and_then (Inl e) f = Inl e"
| "and_then (Inr x) f = f x"

section \<open>Dictionaries\<close>

text \<open>
  A \<^verbatim>\<open>dict\<close> with string keys is an association list in insertion order.
  \<^verbatim>\<open>d[k] = v\<close> replaces the value of a key that is present, in place, and appends a new
  key; \<^verbatim>\<open>d.update(other)\<close> does that for the items of \<^verbatim>\<open>other\<close> in their order.
\<close>

type_synonym 'v dict = "(string \<times> 'v) list"

fun setitem :: "string \<Rightarrow> 'v \<Rightarrow> 'v dict \<Rightarrow> 'v dict" where
  "setitem k v [] = [(k, v)]"
| "setitem k v (p # ps) = (if fst p = k then (k, v) # ps else p # setitem k v ps)"

definition dict_update :: "'v dict \<Rightarrow> 'v dict \<Rightarrow> 'v dict" where
  "dict_update d other = fold (\<lambda>(k, v). setitem k v) other d"

definition keys :: "'v dict \<Rightarrow> string list" where
  "keys d = map fst d"

text \<open>\<^verbatim>\<open>d[k]\<close> raises \<^verbatim>\<open>KeyError\<close> on a missing key.\<close>

definition getitem :: "'v dict \<Rightarrow> string \<Rightarrow> error + 'v" where
  "getitem d k = (case map_of d k of None \<Rightarrow> Inl (KeyError k) | Some v \<Rightarrow> Inr v)"

section \<open>Models and the fit object\<close>

text \<open>
  The model classes \<^verbatim>\<open>fgmodel\<close> and \<^verbatim>\<open>bgmodel\<close> live outside \<^verbatim>\<open>fit.py\<close>. A model
  object is what \<^verbatim>\<open>fit\<close> reads of it (\<^verbatim>\<open>params\<close>, \<^verbatim>\<open>paramrange\<close>, \<^verbatim>\<open>blacklist\<close>) and an
  internal state of any type. Its two methods are parameters of the development: both take
  the object and give the object back, so that a call can leave a trace in it.
\<close>

record 'i model =
  mparams :: "fl dict"
  mparamrange :: "(fl \<times> fl) dict"
  blacklist :: "string list"
  internal :: 'i

record 'i methods =
  reset :: "string \<Rightarrow> fl \<Rightarrow> 'i model \<Rightarrow> 'i model"
  bandpower :: "'i model \<Rightarrow> ndarray \<times> 'i model"

text \<open>
  What \<^verbatim>\<open>fit.py\<close> imports: the range mapper \<^verbatim>\<open>umap\<close> and the vector transforms
  \<^verbatim>\<open>gvec\<close> and \<^verbatim>\<open>hvec\<close> of \<^verbatim>\<open>afra.tools.aux\<close>, the methods of the two model classes,
  and \<^verbatim>\<open>np.linalg.lstsq\<close>, which may raise.
\<close>

record 'i externals =
  umap :: "fl \<Rightarrow> fl \<times> fl \<Rightarrow> fl"
  gvec :: "ndarray \<Rightarrow> fl list"
  hvec :: "ndarray \<Rightarrow> ndarray \<Rightarrow> ndarray \<Rightarrow> fl list"
  lstsq :: "ndarray \<Rightarrow> fl list \<Rightarrow> error + fl list"
  fgmodel :: "'i methods"
  bgmodel :: "'i methods"

text \<open>The attributes of a \<^verbatim>\<open>fit\<close> object; \<^verbatim>\<open>hlfit\<close> adds \<^verbatim>\<open>_offset\<close>.\<close>

record 'i fit =
  data :: ndarray
  fiducial :: ndarray
  noise :: ndarray
  covariance :: ndarray
  params :: "fl dict"
  paramrange :: "(fl \<times> fl) dict"
  activelist :: "string set"
  background :: "'i model option"
  foreground :: "'i model option"
  solver :: string

record 'i hlfit = "'i fit" +
  offset :: ndarray

subsection \<open>Property setters\<close>

text \<open>
  The \<^verbatim>\<open>isinstance\<close> assertions of the setters hold by typing here. Each of the three
  band-power setters asserts four dimensions and refuses NaN; none looks at another
  attribute.
\<close>

definition check_bandpower :: "ndarray \<Rightarrow> error + ndarray" where
  "check_bandpower a =
     (if ndim a \<noteq> 4 then Inl AssertionError
      else if any_nan a then Inl (ValueError ''encounter nan'')
      else Inr a)"

definition set_data :: "ndarray \<Rightarrow> ('i, 'z) fit_scheme \<Rightarrow> error + ('i, 'z) fit_scheme" where
  "set_data a self = and_then (check_bandpower a) (\<lambda>c. Inr (self\<lparr>data := c\<rparr>))"

definition set_fiducial :: "ndarray \<Rightarrow> ('i, 'z) fit_scheme \<Rightarrow> error + ('i, 'z) fit_scheme" where
  "set_fiducial a self = and_then (check_bandpower a) (\<lambda>c. Inr (self\<lparr>fiducial := c\<rparr>))"

definition set_noise :: "ndarray \<Rightarrow> ('i, 'z) fit_scheme \<Rightarrow> error + ('i, 'z) fit_scheme" where
  "set_noise a self = and_then (check_bandpower a) (\<lambda>c. Inr (self\<lparr>noise := c\<rparr>))"

definition check_covariance :: "ndarray \<Rightarrow> error + ndarray" where
  "check_covariance a =
     (if ndim a \<noteq> 2 then Inl AssertionError
      else if shape a ! 0 \<noteq> shape a ! 1 then Inl AssertionError
      else if any_nan a then Inl (ValueError ''encounter nan'')
      else Inr a)"

definition set_covariance :: "ndarray \<Rightarrow> ('i, 'z) fit_scheme \<Rightarrow> error + ('i, 'z) fit_scheme" where
  "set_covariance a self = and_then (check_covariance a) (\<lambda>c. Inr (self\<lparr>covariance := c\<rparr>))"

definition set_foreground ::
  "'i model option \<Rightarrow> ('i, 'z) fit_scheme \<Rightarrow> ('i, 'z) fit_scheme" where
  "set_foreground m self =
     (case m of
        None \<Rightarrow> self\<lparr>foreground := None\<rparr>
      | Some fg \<Rightarrow> self\<lparr>foreground := Some fg,
                        params := dict_update (params self) (mparams fg),
                        paramrange := dict_update (paramrange self) (mparamrange fg)\<rparr>)"

definition set_background ::
  "'i model option \<Rightarrow> ('i, 'z) fit_scheme \<Rightarrow> ('i, 'z) fit_scheme" where
  "set_background m self =
     (case m of
        None \<Rightarrow> self\<lparr>background := None\<rparr>
      | Some bg \<Rightarrow> self\<lparr>background := Some bg,
                        params := dict_update (params self) (mparams bg),
                        paramrange := dict_update (paramrange self) (mparamrange bg)\<rparr>)"

definition set_solver :: "string \<Rightarrow> ('i, 'z) fit_scheme \<Rightarrow> error + ('i, 'z) fit_scheme" where
  "set_solver s self =
     (if s \<in> set [''minuit'', ''dynesty'', ''emcee''] then Inr (self\<lparr>solver := s\<rparr>)
      else Inl AssertionError)"

subsection \<open>Construction\<close>

text \<open>
  The object before \<^verbatim>\<open>__init__\<close> has run: no attribute is set yet. \<^verbatim>\<open>__init__\<close>
  assigns every one of them before it is read, so the placeholders never show.
\<close>

definition blank :: "'i fit" where
  "blank = \<lparr>data = \<lparr>shape = [], vals = []\<rparr>, fiducial = \<lparr>shape = [], vals = []\<rparr>,
            noise = \<lparr>shape = [], vals = []\<rparr>, covariance = \<lparr>shape = [], vals = []\<rparr>,
            params = [], paramrange = [], activelist = {},
            background = None, foreground = None, solver = []\<rparr>"

definition fit_init ::
  "ndarray \<Rightarrow> ndarray \<Rightarrow> ndarray \<Rightarrow> ndarray \<Rightarrow> 'i model option \<Rightarrow> 'i model option \<Rightarrow> string
     \<Rightarrow> error + 'i fit" where
  "fit_init d f n c bg fg s =
     and_then (set_data d blank) (\<lambda>s1.
     and_then (set_fiducial f s1) (\<lambda>s2.
     and_then (set_noise n s2) (\<lambda>s3.
     and_then (set_covariance c s3) (\<lambda>s4.
       let s5 = s4\<lparr>params := [], paramrange := [], activelist := {}\<rparr>;
           s6 = set_background bg s5;
           s7 = set_foreground fg s6
       in if foreground s7 = None \<and> background s7 = None
          then Inl (ValueError ''no activated model'')
          else set_solver s s7))))"

section \<open>Array arithmetic\<close>

text \<open>
  \<^verbatim>\<open>a + b\<close> and \<^verbatim>\<open>a - b\<close> on arrays broadcast: the shapes are aligned at their last
  axis, an axis of extent one is stretched, and any other disagreement raises
  \<^verbatim>\<open>ValueError\<close>. \<open>bcast\<close> works on the reversed shapes.
\<close>

fun bcast :: "nat list \<Rightarrow> nat list \<Rightarrow> error + nat list" where
  "bcast [] ys = Inr ys"
| "bcast xs [] = Inr xs"
| "bcast (x # xs) (y # ys) =
     (if x = y \<or> y = 1 then and_then (bcast xs ys) (\<lambda>r. Inr (x # r))
      else if x = 1 then and_then (bcast xs ys) (\<lambda>r. Inr (y # r))
      else Inl (ValueError ''operands could not be broadcast together''))"

definition broadcast_shape :: "nat list \<Rightarrow> nat list \<Rightarrow> error + nat list" where
  "broadcast_shape s t = and_then (bcast (rev s) (rev t)) (\<lambda>r. Inr (rev r))"

text \<open>All index tuples of a shape, in row-major order.\<close>

definition indices :: "nat list \<Rightarrow> nat list list" where
  "indices s = List.product_lists (map (\<lambda>n. [0..<n]) s)"

text \<open>
  The position, in an array of shape \<open>s\<close>, of the entry that the index tuple \<open>idx\<close> of
  the broadcast result reads: the last \<open>length s\<close> components count, and an axis of
  extent one is read at 0.
\<close>

definition position :: "nat list \<Rightarrow> nat list \<Rightarrow> nat" where
  "position s idx =
     foldl (\<lambda>acc (n, i). acc * n + (if n = 1 then 0 else i)) 0
       (zip s (drop (length idx - length s) idx))"

definition elementwise :: "(fl \<Rightarrow> fl \<Rightarrow> fl) \<Rightarrow> ndarray \<Rightarrow> ndarray \<Rightarrow> error + ndarray" where
  "elementwise f a b =
     and_then (broadcast_shape (shape a) (shape b)) (\<lambda>s.
       Inr \<lparr>shape = s,
            vals = map (\<lambda>idx. f (vals a ! position (shape a) idx) (vals b ! position (shape b) idx))
                     (indices s)\<rparr>)"

definition array_add :: "ndarray \<Rightarrow> ndarray \<Rightarrow> error + ndarray" where
  "array_add = elementwise fl_add"

definition array_sub :: "ndarray \<Rightarrow> ndarray \<Rightarrow> error + ndarray" where
  "array_sub = elementwise fl_sub"

text \<open>\<^verbatim>\<open>np.vdot\<close> of two real vectors; it refuses vectors of different sizes.\<close>

definition vdot :: "fl list \<Rightarrow> fl list \<Rightarrow> error + fl" where
  "vdot xs ys =
     (if length xs \<noteq> length ys then Inl (ValueError ''cannot reshape'')
      else Inr (foldl fl_add (Fin 0) (map2 fl_mul xs ys)))"

section \<open>The two statistics\<close>

text \<open>\<^verbatim>\<open>np.vdot(diff, np.linalg.lstsq(self._covariance, diff, rcond=None)[0])\<close>\<close>

definition weighted :: "('i, 'x) externals_scheme \<Rightarrow> ndarray \<Rightarrow> fl list \<Rightarrow> error + fl" where
  "weighted ext cov diff = and_then (lstsq ext cov diff) (\<lambda>x. vdot diff x)"

subsection \<open>\<^verbatim>\<open>gaussfit\<close>\<close>

text \<open>\<^verbatim>\<open>gvec(predicted + self._noise - self._data)\<close>\<close>

definition gauss_diff ::
  "('i, 'x) externals_scheme \<Rightarrow> ('i, 'z) fit_scheme \<Rightarrow> ndarray \<Rightarrow> error + fl list" where
  "gauss_diff ext self predicted =
     and_then (array_add predicted (noise self)) (\<lambda>s.
     and_then (array_sub s (data self)) (\<lambda>d. Inr (gvec ext d)))"

definition gauss_loglikeli ::
  "('i, 'x) externals_scheme \<Rightarrow> ('i, 'z) fit_scheme \<Rightarrow> ndarray \<Rightarrow> error + fl" where
  "gauss_loglikeli ext self predicted =
     (if shape predicted \<noteq> shape (data self) then Inl AssertionError
      else and_then (gauss_diff ext self predicted) (\<lambda>diff.
        if list_ex isnan diff then Inl (ValueError ''encounter nan'')
        else and_then (weighted ext (covariance self) diff) (\<lambda>q.
          let logl = fl_mul (Fin (- (1 / 2))) q
          in if isnan logl then Inr (nan_to_num NInf) else Inr logl)))"

definition gauss_lsq ::
  "('i, 'x) externals_scheme \<Rightarrow> ('i, 'z) fit_scheme \<Rightarrow> ndarray \<Rightarrow> error + fl" where
  "gauss_lsq ext self predicted =
     (if shape predicted \<noteq> shape (data self) then Inl AssertionError
      else and_then (gauss_diff ext self predicted) (\<lambda>diff.
        if list_ex isnan diff then Inl (ValueError ''encounter nan'')
        else and_then (weighted ext (covariance self) diff) (\<lambda>chi.
          if isnan chi then Inr (nan_to_num PInf) else Inr chi)))"

subsection \<open>\<^verbatim>\<open>hlfit\<close>\<close>

text \<open>
  The \<^verbatim>\<open>offset\<close> setter: absent, a zero array shaped like the noise; given, it must have
  the shape of the noise and no NaN.
\<close>

definition zeros_like :: "ndarray \<Rightarrow> ndarray" where
  "zeros_like a = \<lparr>shape = shape a, vals = map (\<lambda>_. Fin 0) (vals a)\<rparr>"

definition set_offset :: "ndarray option \<Rightarrow> ('i, 'z) hlfit_scheme \<Rightarrow> error + ('i, 'z) hlfit_scheme" where
  "set_offset off self =
     (case off of
        None \<Rightarrow> Inr (self\<lparr>offset := zeros_like (noise self)\<rparr>)
      | Some a \<Rightarrow>
          if shape a \<noteq> shape (noise self) then Inl AssertionError
          else if any_nan a then Inl (ValueError ''encounter nan'')
          else Inr (self\<lparr>offset := a\<rparr>))"

text \<open>
  \<^verbatim>\<open>hvec(predicted + self._noise + self._offset, self._data + self._offset,
  self._fiducial + self._noise + self._offset)\<close>, the arguments evaluated left to right.
\<close>

definition hl_diff ::
  "('i, 'x) externals_scheme \<Rightarrow> ('i, 'z) hlfit_scheme \<Rightarrow> ndarray \<Rightarrow> error + fl list" where
  "hl_diff ext self predicted =
     and_then (array_add predicted (noise self)) (\<lambda>p1.
     and_then (array_add p1 (offset self)) (\<lambda>p.
     and_then (array_add (data self) (offset self)) (\<lambda>d.
     and_then (array_add (fiducial self) (noise self)) (\<lambda>f1.
     and_then (array_add f1 (offset self)) (\<lambda>f. Inr (hvec ext p d f))))))"

definition hl_loglikeli ::
  "('i, 'x) externals_scheme \<Rightarrow> ('i, 'z) hlfit_scheme \<Rightarrow> ndarray \<Rightarrow> error + fl" where
  "hl_loglikeli ext self predicted =
     (if shape predicted \<noteq> shape (data self) then Inl AssertionError
      else and_then (hl_diff ext self predicted) (\<lambda>diff.
        if list_ex isnan diff then Inl (ValueError ''encounter nan'')
        else and_then (weighted ext (covariance self) diff) (\<lambda>q.
          let logl = fl_mul (Fin (- (1 / 2))) q
          in if isnan logl then Inr (nan_to_num NInf) else Inr logl)))"

definition hl_lsq ::
  "('i, 'x) externals_scheme \<Rightarrow> ('i, 'z) hlfit_scheme \<Rightarrow> ndarray \<Rightarrow> error + fl" where
  "hl_lsq ext self predicted =
     (if shape predicted \<noteq> shape (data self) then Inl AssertionError
      else and_then (hl_diff ext self predicted) (\<lambda>diff.
        if list_ex isnan diff then Inl (ValueError ''encounter nan'')
        else and_then (weighted ext (covariance self) diff) (\<lambda>chi.
          if isnan chi then Inr (nan_to_num PInf) else Inr chi)))"

section \<open>The objective\<close>

text \<open>
  The loop of \<^verbatim>\<open>_core_likelihood\<close> and \<^verbatim>\<open>_core_lsq\<close> over
  \<^verbatim>\<open>range(len(name_list))\<close>. \<^verbatim>\<open>cube[i]\<close> raises past the end of the cube and
  \<^verbatim>\<open>self._paramrange[name]\<close> on a name without a range; what the earlier rounds did to
  the models stays done.
\<close>

fun reset_loop ::
  "('i, 'x) externals_scheme \<Rightarrow> string list \<Rightarrow> fl list \<Rightarrow> nat list \<Rightarrow> ('i, 'z) fit_scheme
     \<Rightarrow> (error + unit) \<times> ('i, 'z) fit_scheme" where
  "reset_loop ext name_list cube [] self = (Inr (), self)"
| "reset_loop ext name_list cube (i # rest) self =
     (let name = name_list ! i in
      if length cube \<le> i then (Inl IndexError, self)
      else case getitem (paramrange self) name of
        Inl e \<Rightarrow> (Inl e, self)
      | Inr r \<Rightarrow>
          let tmp = umap ext (cube ! i) r;
              self1 = (case foreground self of
                         None \<Rightarrow> self
                       | Some fg \<Rightarrow> self\<lparr>foreground := Some (reset (fgmodel ext) name tmp fg)\<rparr>);
              self2 = (case background self1 of
                         None \<Rightarrow> self1
                       | Some bg \<Rightarrow> self1\<lparr>background := Some (reset (bgmodel ext) name tmp bg)\<rparr>)
          in reset_loop ext name_list cube rest self2)"

text \<open>
  The part after \<^verbatim>\<open># predict data\<close>, for either statistic. With no model at all,
  \<^verbatim>\<open>self._background.bandpower()\<close> is an attribute of \<^verbatim>\<open>None\<close>.
\<close>

definition predict ::
  "('i, 'x) externals_scheme \<Rightarrow> (('i, 'z) fit_scheme \<Rightarrow> ndarray \<Rightarrow> error + fl)
     \<Rightarrow> ('i, 'z) fit_scheme \<Rightarrow> (error + fl) \<times> ('i, 'z) fit_scheme" where
  "predict ext stat self =
     (case foreground self of
        None \<Rightarrow>
          (case background self of
             None \<Rightarrow> (Inl AttributeError, self)
           | Some bg \<Rightarrow>
               let (b, bg') = bandpower (bgmodel ext) bg;
                   self' = self\<lparr>background := Some bg'\<rparr>
               in (stat self' b, self'))
      | Some fg \<Rightarrow>
          (case background self of
             None \<Rightarrow>
               let (f, fg') = bandpower (fgmodel ext) fg;
                   self' = self\<lparr>foreground := Some fg'\<rparr>
               in (stat self' f, self')
           | Some bg \<Rightarrow>
               let (f, fg') = bandpower (fgmodel ext) fg;
                   (b, bg') = bandpower (bgmodel ext) bg;
                   self' = self\<lparr>foreground := Some fg', background := Some bg'\<rparr>
               in (and_then (array_add f b) (stat self'), self')))"

text \<open>\<^verbatim>\<open>np.any(cube > 1.) or np.any(cube < 0.)\<close>\<close>

definition outside :: "fl list \<Rightarrow> bool" where
  "outside cube = (list_ex (\<lambda>c. fl_less (Fin 1) c) cube \<or> list_ex (\<lambda>c. fl_less c (Fin 0)) cube)"

text \<open>
  \<^verbatim>\<open>_core_likelihood\<close> and \<^verbatim>\<open>_core_lsq\<close>. The statistic is the method of the
  subclass, \<^verbatim>\<open>self.loglikeli\<close> or \<^verbatim>\<open>self.lsq\<close>.
\<close>

definition core_likelihood ::
  "('i, 'x) externals_scheme \<Rightarrow> (('i, 'z) fit_scheme \<Rightarrow> ndarray \<Rightarrow> error + fl)
     \<Rightarrow> ('i, 'z) fit_scheme \<Rightarrow> fl list \<Rightarrow> (error + fl) \<times> ('i, 'z) fit_scheme" where
  "core_likelihood ext loglikeli self cube =
     (if outside cube then (Inr (nan_to_num NInf), self)
      else
        let name_list = sorted_list_of_set (activelist self)
        in case reset_loop ext name_list cube [0..<length name_list] self of
             (Inl e, self') \<Rightarrow> (Inl e, self')
           | (Inr _, self') \<Rightarrow> predict ext loglikeli self')"

definition core_lsq ::
  "('i, 'x) externals_scheme \<Rightarrow> (('i, 'z) fit_scheme \<Rightarrow> ndarray \<Rightarrow> error + fl)
     \<Rightarrow> ('i, 'z) fit_scheme \<Rightarrow> fl list \<Rightarrow> (error + fl) \<times> ('i, 'z) fit_scheme" where
  "core_lsq ext lsq self cube =
     (if outside cube then (Inr (nan_to_num PInf), self)
      else
        let name_list = sorted_list_of_set (activelist self)
        in case reset_loop ext name_list cube [0..<length name_list] self of
             (Inl e, self') \<Rightarrow> (Inl e, self')
           | (Inr _, self') \<Rightarrow> predict ext lsq self')"

text \<open>\<^verbatim>\<open>prior\<close>, the flat prior.\<close>

definition prior :: "fl list \<Rightarrow> fl list" where
  "prior cube = cube"

section \<open>Solver adapters\<close>

text \<open>
  The objective as the engines receive it: a bound method, which reads and changes the
  models of the fit object it belongs to.
\<close>

type_synonym ('i, 'z) objective =
  "('i, 'z) fit_scheme \<Rightarrow> fl list \<Rightarrow> (error + fl) \<times> ('i, 'z) fit_scheme"

text \<open>Sequencing of a step that may raise and may change the fit object.\<close>

fun then_st :: "(error + 'a) \<times> 's \<Rightarrow> ('a \<Rightarrow> 's \<Rightarrow> (error + 'b) \<times> 's) \<Rightarrow> (error + 'b) \<times> 's" where
  "then_st (Inl e, s) f = (Inl e, s)"
| "then_st (Inr x, s) f = f x s"

text \<open>
  What \<^verbatim>\<open>run\<close> returns: the pair of the point optimizer, the flat chain of the ensemble
  sampler, or the result object of the nested sampler.
\<close>

datatype 'r outcome = Best "fl list" "fl list" | Chain ndarray | Nested 'r

text \<open>
  \<^verbatim>\<open>a[:, i] = f(a[:, i])\<close> on a two-dimensional array, with \<open>f\<close> applied entry by
  entry; \<^verbatim>\<open>v[i] = f(v[i])\<close> on a vector.
\<close>

definition map_column :: "(fl \<Rightarrow> fl) \<Rightarrow> nat \<Rightarrow> ndarray \<Rightarrow> error + ndarray" where
  "map_column f i a =
     (if ndim a \<noteq> 2 then Inl IndexError
      else if shape a ! 1 \<le> i then Inl IndexError
      else Inr (a\<lparr>vals := map (\<lambda>(j, v). if j mod (shape a ! 1) = i then f v else v)
                             (enumerate 0 (vals a))\<rparr>))"

definition map_entry :: "(fl \<Rightarrow> fl) \<Rightarrow> nat \<Rightarrow> fl list \<Rightarrow> error + fl list" where
  "map_entry f i v = (if length v \<le> i then Inl IndexError else Inr (v[i := f (v ! i)]))"

text \<open>
  The loop that closes \<^verbatim>\<open>run_emcee\<close> and \<^verbatim>\<open>run_dynesty\<close>:
  \<^verbatim>\<open>low, high = self.paramrange[names[i]]\<close>, then column \<open>i\<close> through \<^verbatim>\<open>umap\<close>.
\<close>

fun remap_columns ::
  "('i, 'x) externals_scheme \<Rightarrow> (fl \<times> fl) dict \<Rightarrow> string list \<Rightarrow> nat list \<Rightarrow> ndarray
     \<Rightarrow> error + ndarray" where
  "remap_columns ext pr names [] a = Inr a"
| "remap_columns ext pr names (i # rest) a =
     and_then (getitem pr (names ! i)) (\<lambda>r.
     and_then (map_column (\<lambda>v. umap ext v r) i a) (remap_columns ext pr names rest))"

text \<open>The same loop in \<^verbatim>\<open>run_minuit\<close>, on the two vectors \<^verbatim>\<open>best\<close> and \<^verbatim>\<open>err\<close>.\<close>

fun remap_entries ::
  "('i, 'x) externals_scheme \<Rightarrow> (fl \<times> fl) dict \<Rightarrow> string list \<Rightarrow> nat list \<Rightarrow> fl list \<times> fl list
     \<Rightarrow> error + fl list \<times> fl list" where
  "remap_entries ext pr names [] be = Inr be"
| "remap_entries ext pr names (i # rest) (best, err) =
     and_then (getitem pr (names ! i)) (\<lambda>r.
     and_then (map_entry (\<lambda>v. umap ext v r) i best) (\<lambda>best'.
     and_then (map_entry (\<lambda>v. umap ext v r) i err) (\<lambda>err'.
       remap_entries ext pr names rest (best', err'))))"

subsection \<open>\<^verbatim>\<open>run_minuit\<close>\<close>

record ('m, 'i, 'z) minuit_api =
  Minuit :: "('i, 'z) objective \<Rightarrow> fl list \<Rightarrow> string list \<Rightarrow> 'm"
  set_limits :: "fl \<times> fl \<Rightarrow> 'm \<Rightarrow> 'm"
  migrad :: "'m \<Rightarrow> ('i, 'z) fit_scheme \<Rightarrow> (error + 'm) \<times> ('i, 'z) fit_scheme"
  minos :: "'m \<Rightarrow> ('i, 'z) fit_scheme \<Rightarrow> (error + 'm) \<times> ('i, 'z) fit_scheme"
  minuit_values :: "'m \<Rightarrow> fl list"
  minuit_errors :: "'m \<Rightarrow> fl list"

definition run_minuit ::
  "('m, 'i, 'z) minuit_api \<Rightarrow> ('i, 'x) externals_scheme
     \<Rightarrow> (('i, 'z) fit_scheme \<Rightarrow> ndarray \<Rightarrow> error + fl)
     \<Rightarrow> int dict option \<Rightarrow> ('i, 'z) fit_scheme \<Rightarrow> (error + 'r outcome) \<times> ('i, 'z) fit_scheme" where
  "run_minuit api ext lsq kwargs self =
     (let solver = Minuit api (core_lsq ext lsq) (replicate (card (activelist self)) (Fin (1 / 2)))
                     (sorted_list_of_set (activelist self));
          solver = set_limits api (Fin 0, Fin 1) solver
      in then_st (migrad api solver self) (\<lambda>solver self.
           let best = minuit_values api solver
           in then_st (minos api solver self) (\<lambda>solver self.
                let err = minuit_errors api solver;
                    names = sorted_list_of_set (activelist self)
                in (and_then (remap_entries ext (paramrange self) names [0..<length names] (best, err))
                      (\<lambda>(best, err). Inr (Best best err)), self))))"

subsection \<open>\<^verbatim>\<open>run_emcee\<close>\<close>

text \<open>
  The ensemble sampler, and \<^verbatim>\<open>np.random.uniform\<close> with it: \<open>'p\<close> is what
  \<^verbatim>\<open>run_mcmc\<close> starts from and returns, the walker positions.
\<close>

record ('s, 'p, 'i, 'z) emcee_api =
  EnsembleSampler :: "int \<Rightarrow> nat \<Rightarrow> ('i, 'z) objective \<Rightarrow> 's"
  random_uniform :: "int \<times> nat \<Rightarrow> 'p"
  run_mcmc :: "'s \<Rightarrow> 'p \<Rightarrow> int \<Rightarrow> ('i, 'z) fit_scheme \<Rightarrow> (error + 'p \<times> 's) \<times> ('i, 'z) fit_scheme"
  sampler_reset :: "'s \<Rightarrow> 's"
  get_autocorr_time :: "'s \<Rightarrow> error + fl list"
  get_chain :: "'s \<Rightarrow> int \<Rightarrow> ndarray"

text \<open>\<^verbatim>\<open>np.mean\<close> of a vector (NaN when it is empty) and \<^verbatim>\<open>int\<close> of a scalar.\<close>

definition mean :: "fl list \<Rightarrow> fl" where
  "mean xs =
     (if xs = [] then NaN
      else case foldl fl_add (Fin 0) xs of Fin s \<Rightarrow> Fin (s / real (length xs)) | v \<Rightarrow> v)"

fun py_int :: "fl \<Rightarrow> error + int" where
  "py_int (Fin r) = Inr (if 0 \<le> r then \<lfloor>r\<rfloor> else \<lceil>r\<rceil>)"
| "py_int NaN = Inl (ValueError ''cannot convert float NaN to integer'')"
| "py_int _ = Inl OverflowError"

text \<open>The default of the parameter \<^verbatim>\<open>kwargs\<close> of \<^verbatim>\<open>run_emcee\<close>.\<close>

definition emcee_defaults :: "int dict" where
  "emcee_defaults = [(''nwalker'', 100), (''nstep'', 10000)]"

text \<open>
  \<open>kwargs = None\<close> is the call that leaves the argument out, so that the default applies;
  \<open>Some d\<close> is the call that passes \<open>d\<close>.
\<close>

definition run_emcee ::
  "('s, 'p, 'i, 'z) emcee_api \<Rightarrow> ('i, 'x) externals_scheme
     \<Rightarrow> (('i, 'z) fit_scheme \<Rightarrow> ndarray \<Rightarrow> error + fl)
     \<Rightarrow> int dict option \<Rightarrow> ('i, 'z) fit_scheme \<Rightarrow> (error + 'r outcome) \<times> ('i, 'z) fit_scheme" where
  "run_emcee api ext loglikeli kwargs self =
     (let kwargs = (case kwargs of None \<Rightarrow> emcee_defaults | Some d \<Rightarrow> d);
          ndim = card (activelist self)
      in then_st (getitem kwargs ''nwalker'', self) (\<lambda>nwalker self.
           let solver = EnsembleSampler api nwalker ndim (core_likelihood ext loglikeli)
           in then_st (getitem kwargs ''nstep'', self) (\<lambda>nstep self.
           then_st (run_mcmc api solver (random_uniform api (nwalker, ndim)) (nstep div 10) self)
             (\<lambda>(state, solver) self.
           let solver = sampler_reset api solver
           in then_st (run_mcmc api solver state nstep self) (\<lambda>(state, solver) self.
           then_st (and_then (get_autocorr_time api solver) (\<lambda>t. py_int (mean t)), self) (\<lambda>tau self.
           then_st (if nstep < 50 * tau
                    then then_st (run_mcmc api (sampler_reset api solver) state (100 * tau) self)
                           (\<lambda>(state, solver) self. (Inr solver, self))
                    else (Inr solver, self)) (\<lambda>solver self.
           let results = get_chain api solver (10 * tau);
               names = sorted_list_of_set (activelist self)
           in (and_then (remap_columns ext (paramrange self) names [0..<length names] results)
                 (\<lambda>results. Inr (Chain results)), self))))))))"

subsection \<open>\<^verbatim>\<open>run_dynesty\<close>\<close>

text \<open>
  The result object of the nested sampler: its \<^verbatim>\<open>samples\<close> array, and whatever else it
  holds in the extension of the record.
\<close>

record dresults =
  samples :: ndarray

record ('d, 'r, 'i, 'z) dynesty_api =
  DynamicNestedSampler :: "('i, 'z) objective \<Rightarrow> (fl list \<Rightarrow> fl list) \<Rightarrow> nat \<Rightarrow> 'd"
  run_nested :: "'d \<Rightarrow> int dict \<Rightarrow> ('i, 'z) fit_scheme \<Rightarrow> (error + 'd) \<times> ('i, 'z) fit_scheme"
  results :: "'d \<Rightarrow> 'r dresults_scheme"

definition run_dynesty ::
  "('d, 'r, 'i, 'z) dynesty_api \<Rightarrow> ('i, 'x) externals_scheme
     \<Rightarrow> (('i, 'z) fit_scheme \<Rightarrow> ndarray \<Rightarrow> error + fl)
     \<Rightarrow> int dict option \<Rightarrow> ('i, 'z) fit_scheme
     \<Rightarrow> (error + 'r dresults_scheme outcome) \<times> ('i, 'z) fit_scheme" where
  "run_dynesty api ext loglikeli kwargs self =
     (let kwargs = (case kwargs of None \<Rightarrow> [] | Some d \<Rightarrow> d);
          solver = DynamicNestedSampler api (core_likelihood ext loglikeli) prior
                     (card (activelist self))
      in then_st (run_nested api solver kwargs self) (\<lambda>solver self.
           let res = results api solver;
               names = sorted_list_of_set (activelist self)
           in (and_then (remap_columns ext (paramrange self) names [0..<length names] (samples res))
                 (\<lambda>s. Inr (Nested (res\<lparr>samples := s\<rparr>))), self)))"

subsection \<open>\<^verbatim>\<open>run\<close>\<close>

text \<open>The first five lines of \<^verbatim>\<open>run\<close>.\<close>

definition recompute_activelist :: "('i, 'z) fit_scheme \<Rightarrow> ('i, 'z) fit_scheme" where
  "recompute_activelist self =
     (let self = self\<lparr>activelist := set (keys (params self))\<rparr>;
          self = (case background self of
                    None \<Rightarrow> self
                  | Some bg \<Rightarrow> self\<lparr>activelist := activelist self - set (blacklist bg)\<rparr>)
      in case foreground self of
           None \<Rightarrow> self
         | Some fg \<Rightarrow> self\<lparr>activelist := activelist self - set (blacklist fg)\<rparr>)"

text \<open>
  \<^verbatim>\<open>return self._rundict[self._solver](kwargs)\<close>: the options are always passed, as the
  one positional argument.
\<close>

definition run ::
  "('m, 'i, 'z) minuit_api \<Rightarrow> ('s, 'p, 'i, 'z) emcee_api \<Rightarrow> ('d, 'r, 'i, 'z) dynesty_api
     \<Rightarrow> ('i, 'x) externals_scheme
     \<Rightarrow> (('i, 'z) fit_scheme \<Rightarrow> ndarray \<Rightarrow> error + fl)
     \<Rightarrow> (('i, 'z) fit_scheme \<Rightarrow> ndarray \<Rightarrow> error + fl)
     \<Rightarrow> ('i, 'z) fit_scheme \<Rightarrow> int dict
     \<Rightarrow> (error + 'r dresults_scheme outcome) \<times> ('i, 'z) fit_scheme" where
  "run mn es dn ext loglikeli lsq self kwargs =
     (let self = recompute_activelist self;
          rundict = [(''minuit'', run_minuit mn ext lsq),
                     (''emcee'', run_emcee es ext loglikeli),
                     (''dynesty'', run_dynesty dn ext loglikeli)]
      in case map_of rundict (solver self) of
           None \<Rightarrow> (Inl (KeyError (solver self)), self)
         | Some adapter \<Rightarrow> adapter (Some kwargs) self)"

subsection \<open>The two subclasses\<close>

text \<open>
  \<^verbatim>\<open>gaussfit.__init__\<close> is \<^verbatim>\<open>fit.__init__\<close>; \<^verbatim>\<open>hlfit.__init__\<close> assigns the
  offset after it.
\<close>

definition gaussfit_init ::
  "ndarray \<Rightarrow> ndarray \<Rightarrow> ndarray \<Rightarrow> ndarray \<Rightarrow> 'i model option \<Rightarrow> 'i model option \<Rightarrow> string
     \<Rightarrow> error + 'i fit" where
  "gaussfit_init d f n c bg fg s = fit_init d f n c bg fg s"

definition hlfit_init ::
  "ndarray \<Rightarrow> ndarray \<Rightarrow> ndarray \<Rightarrow> ndarray \<Rightarrow> 'i model option \<Rightarrow> 'i model option \<Rightarrow> string
     \<Rightarrow> ndarray option \<Rightarrow> error + 'i hlfit" where
  "hlfit_init d f n c bg fg s off =
     and_then (fit_init d f n c bg fg s) (\<lambda>self.
       set_offset off (fit.extend self (hlfit.fields \<lparr>shape = [], vals = []\<rparr>)))"

section \<open>Example objects\<close>

text \<open>
  Small concrete inputs, on which the theorems below are instantiated. The example model
  counts the calls of its methods in its internal state.
\<close>

definition ex_data :: ndarray where
  "ex_data = \<lparr>shape = [1, 1, 1, 1], vals = [Fin 2]\<rparr>"

definition ex_noise :: ndarray where
  "ex_noise = \<lparr>shape = [1, 1, 1, 1], vals = [Fin 1]\<rparr>"

definition ex_wide :: ndarray where
  "ex_wide = \<lparr>shape = [2, 1, 1, 1], vals = [Fin 1, Fin 3]\<rparr>"

definition ex_cov :: ndarray where
  "ex_cov = \<lparr>shape = [1, 1], vals = [Fin 1]\<rparr>"

definition ex_fg :: "nat model" where
  "ex_fg = \<lparr>mparams = [(''beta'', Fin 0), (''amp'', Fin 1)],
            mparamrange = [(''beta'', (Fin 0, Fin 4)), (''amp'', (Fin 0, Fin 10))],
            blacklist = [''beta''], internal = 0\<rparr>"

definition ex_bg :: "nat model" where
  "ex_bg = \<lparr>mparams = [(''r'', Fin 0)], mparamrange = [(''r'', (Fin 0, Fin 1))],
            blacklist = [], internal = 0\<rparr>"

definition ex_fg2 :: "nat model" where
  "ex_fg2 = \<lparr>mparams = [(''index'', Fin 3)], mparamrange = [(''index'', (Fin 2, Fin 4))],
             blacklist = [], internal = 0\<rparr>"

text \<open>
  A fit object as \<^verbatim>\<open>__init__\<close> leaves it, with \<open>ex_bg\<close> and \<open>ex_fg\<close> attached.
\<close>

definition ex_fit :: "nat fit" where
  "ex_fit = \<lparr>data = ex_data, fiducial = ex_data, noise = ex_noise, covariance = ex_cov,
             params = [(''r'', Fin 0), (''beta'', Fin 0), (''amp'', Fin 1)],
             paramrange = [(''r'', (Fin 0, Fin 1)), (''beta'', (Fin 0, Fin 4)),
                           (''amp'', (Fin 0, Fin 10))],
             activelist = {}, background = Some ex_bg, foreground = Some ex_fg,
             solver = ''emcee''\<rparr>"

section \<open>Notions used in the statements\<close>

text \<open>The names that the blacklists of the attached models exclude.\<close>

definition attached_blacklists :: "('i, 'z) fit_scheme \<Rightarrow> string set" where
  "attached_blacklists self =
     (case background self of None \<Rightarrow> {} | Some bg \<Rightarrow> set (blacklist bg)) \<union>
     (case foreground self of None \<Rightarrow> {} | Some fg \<Rightarrow> set (blacklist fg))"

text \<open>
  Whether a statistic runs into its NaN clamp: the residual \<open>d\<close> was computed and holds
  no NaN, the covariance-weighted product was computed, and its scaled value is NaN.
\<close>

definition hits_clamp ::
  "(fl \<Rightarrow> fl) \<Rightarrow> ('i, 'x) externals_scheme \<Rightarrow> ndarray \<Rightarrow> error + fl list \<Rightarrow> bool" where
  "hits_clamp scale ext cov d =
     (case d of
        Inl _ \<Rightarrow> False
      | Inr diff \<Rightarrow>
          \<not> list_ex isnan diff \<and>
          (case weighted ext cov diff of Inl _ \<Rightarrow> False | Inr q \<Rightarrow> isnan (scale q)))"

section \<open>The objective, in the words of the specification\<close>

text \<open>
  Step 2: the sorted active names, each paired with its cube coordinate mapped into the
  range of that name.
\<close>

definition spec_updates ::
  "('i, 'x) externals_scheme \<Rightarrow> ('i, 'z) fit_scheme \<Rightarrow> fl list \<Rightarrow> (string \<times> fl) list" where
  "spec_updates ext self cube =
     map2 (\<lambda>name c. (name, umap ext c (the (map_of (paramrange self) name))))
       (sorted_list_of_set (activelist self)) cube"

text \<open>Every update of the list, in order, as a \<^verbatim>\<open>reset\<close> of one model.\<close>

definition spec_reset_all :: "'i methods \<Rightarrow> (string \<times> fl) list \<Rightarrow> 'i model \<Rightarrow> 'i model" where
  "spec_reset_all cls ups = fold (\<lambda>(name, v). reset cls name v) ups"

text \<open>
  Steps 3 and 4: the attached models take the updates, the prediction is the sum of the two
  band-powers or the band-power of the one model there is, and the statistic reduces it.
  With no model attached, which construction excludes, the outcome is the error of the code.
\<close>

definition spec_predict ::
  "('i, 'x) externals_scheme \<Rightarrow> (('i, 'z) fit_scheme \<Rightarrow> ndarray \<Rightarrow> error + fl)
     \<Rightarrow> ('i, 'z) fit_scheme \<Rightarrow> (string \<times> fl) list \<Rightarrow> (error + fl) \<times> ('i, 'z) fit_scheme" where
  "spec_predict ext stat self ups =
     (let fg = map_option (spec_reset_all (fgmodel ext) ups) (foreground self);
          bg = map_option (spec_reset_all (bgmodel ext) ups) (background self)
      in case (fg, bg) of
           (Some f, Some b) \<Rightarrow>
             let (pf, f') = bandpower (fgmodel ext) f;
                 (pb, b') = bandpower (bgmodel ext) b;
                 self' = self\<lparr>foreground := Some f', background := Some b'\<rparr>
             in (and_then (array_add pf pb) (stat self'), self')
         | (Some f, None) \<Rightarrow>
             let (pf, f') = bandpower (fgmodel ext) f;
                 self' = self\<lparr>foreground := Some f'\<rparr>
             in (stat self' pf, self')
         | (None, Some b) \<Rightarrow>
             let (pb, b') = bandpower (bgmodel ext) b;
                 self' = self\<lparr>background := Some b'\<rparr>
             in (stat self' pb, self')
         | (None, None) \<Rightarrow> (Inl AttributeError, self))"

definition spec_objective ::
  "('i, 'x) externals_scheme \<Rightarrow> (('i, 'z) fit_scheme \<Rightarrow> ndarray \<Rightarrow> error + fl)
     \<Rightarrow> ('i, 'z) fit_scheme \<Rightarrow> fl list \<Rightarrow> (error + fl) \<times> ('i, 'z) fit_scheme" where
  "spec_objective ext stat self cube = spec_predict ext stat self (spec_updates ext self cube)"

section \<open>Example externals\<close>

text \<open>
  A model class whose \<^verbatim>\<open>reset\<close> stores the value and whose \<^verbatim>\<open>bandpower\<close> is the
  one-entry array of the parameter \<open>key\<close>; both count the call. The range mapper is the
  linear one, the vector transforms flatten, the solver returns its right-hand side.
\<close>

definition ex_methods :: "string \<Rightarrow> nat methods" where
  "ex_methods key =
     \<lparr>reset = (\<lambda>name v m. m\<lparr>mparams := setitem name v (mparams m), internal := Suc (internal m)\<rparr>),
      bandpower = (\<lambda>m. (\<lparr>shape = [1, 1, 1, 1],
                            vals = [case map_of (mparams m) key of None \<Rightarrow> Fin 0 | Some v \<Rightarrow> v]\<rparr>,
                          m\<lparr>internal := Suc (internal m)\<rparr>))\<rparr>"

definition ex_ext :: "nat externals" where
  "ex_ext =
     \<lparr>umap = (\<lambda>u (lo, hi). fl_add lo (fl_mul u (fl_sub hi lo))),
      gvec = vals,
      hvec = (\<lambda>p d f. map2 fl_sub (vals p) (vals d)),
      lstsq = (\<lambda>cov diff. Inr diff),
      fgmodel = ex_methods ''amp'',
      bgmodel = ex_methods ''r''\<rparr>"

definition ex_active :: "nat fit" where
  "ex_active = ex_fit\<lparr>activelist := {''amp'', ''r''}\<rparr>"

text \<open>A solver that yields NaN, a \<^verbatim>\<open>hlfit\<close> object, and a one-entry prediction.\<close>

definition ex_degenerate :: "nat externals" where
  "ex_degenerate = ex_ext\<lparr>lstsq := (\<lambda>cov diff. Inr (map (\<lambda>_. NaN) diff))\<rparr>"

definition ex_hlfit :: "nat hlfit" where
  "ex_hlfit = \<lparr>data = ex_data, fiducial = ex_data, noise = ex_noise, covariance = ex_cov,
             params = [(''r'', Fin 0), (''beta'', Fin 0), (''amp'', Fin 1)],
             paramrange = [(''r'', (Fin 0, Fin 1)), (''beta'', (Fin 0, Fin 4)),
                           (''amp'', (Fin 0, Fin 10))],
             activelist = {}, background = Some ex_bg, foreground = Some ex_fg,
             solver = ''emcee'', offset = zeros_like ex_noise\<rparr>"

definition ex_pred :: "fl \<Rightarrow> ndarray" where
  "ex_pred v = \<lparr>shape = [1, 1, 1, 1], vals = [v]\<rparr>"

section \<open>The remapped sample array\<close>

text \<open>
  An array of samples with every entry of column \<open>c\<close>, for \<open>c\<close> below the number of
  names, sent through \<^verbatim>\<open>umap\<close> with the range of the \<open>c\<close>-th name, and the other
  entries left alone.
\<close>

definition remapped ::
  "('i, 'x) externals_scheme \<Rightarrow> (fl \<times> fl) dict \<Rightarrow> string list \<Rightarrow> ndarray \<Rightarrow> ndarray" where
  "remapped ext pr names a =
     a\<lparr>vals := map (\<lambda>(j, v). if j mod (shape a ! 1) < length names
                               then umap ext v (the (map_of pr (names ! (j mod (shape a ! 1)))))
                               else v)
                  (enumerate 0 (vals a))\<rparr>"

section \<open>An example nested sampler\<close>

text \<open>
  A result object with one field beside the samples, and a sampler that returns two
  samples of two coordinates without looking at the likelihood.
\<close>

record nested_results = dresults +
  logz :: fl

definition ex_dynesty :: "(ndarray, unit nested_results_ext, nat, unit) dynesty_api" where
  "ex_dynesty =
     \<lparr>DynamicNestedSampler =
        (\<lambda>loglike ptform n. \<lparr>shape = [2, n], vals = ptform [Fin 0, Fin (1 / 2), Fin 1, Fin (1 / 4)]\<rparr>),
      run_nested = (\<lambda>solver kwargs self. (Inr solver, self)),
      results = (\<lambda>solver. \<lparr>samples = solver, logz = Fin 7\<rparr>)\<rparr>"

section \<open>Properties\<close>

subsection \<open>Dictionaries\<close>

lemma keys_setitem: "set (keys (setitem k v d)) = insert k (set (keys d))"
  by (induction d) (auto simp: keys_def)

lemma map_of_setitem: "map_of (setitem k v d) = (map_of d)(k \<mapsto> v)"
  by (induction d) (auto simp: fun_eq_iff)

lemma keys_dict_update: "set (keys (dict_update d other)) = set (keys d) \<union> set (keys other)"
  unfolding dict_update_def
  by (induction other arbitrary: d) (auto simp: keys_setitem, auto simp: keys_def)

lemma map_of_dict_update: "map_of (dict_update d other) = map_of d ++ map_of (rev other)"
  unfolding dict_update_def
  by (induction other arbitrary: d)
     (auto simp: map_of_setitem fun_eq_iff map_add_def split: option.splits)

subsection \<open>Construction\<close>

lemmas init_defs =
  fit_init_def set_data_def set_fiducial_def set_noise_def set_covariance_def
  check_bandpower_def check_covariance_def set_background_def set_foreground_def
  set_solver_def Let_def

lemmas ex_defs =
  ex_data_def ex_noise_def ex_wide_def ex_cov_def ex_fg_def ex_bg_def ndim_def any_nan_def
  blank_def dict_update_def

text \<open>
  C9. With neither model, construction fails, and once the four arrays pass their own
  checks the failure is \<^verbatim>\<open>ValueError('no activated model')\<close>, for \<^verbatim>\<open>fit\<close> and for
  both subclasses. It is the only requirement on the models: with valid arrays and a
  valid solver name (and, for \<^verbatim>\<open>hlfit\<close>, an offset that is absent or is shaped like
  the noise and free of NaN), each of the three constructors succeeds exactly when at
  least one model is given, and the object it returns holds the models it was given.
\<close>

theorem no_model_is_refused:
  "(\<exists>e. fit_init d f n c None None s = (Inl e :: error + 'i fit)) \<and>
   (\<exists>e. gaussfit_init d f n c None None s = (Inl e :: error + 'i fit)) \<and>
   (\<exists>e. hlfit_init d f n c None None s off = (Inl e :: error + 'i hlfit)) \<and>
   (ndim d = 4 \<and> \<not> any_nan d \<and> ndim f = 4 \<and> \<not> any_nan f \<and> ndim n = 4 \<and> \<not> any_nan n \<and>
    ndim c = 2 \<and> shape c ! 0 = shape c ! 1 \<and> \<not> any_nan c \<longrightarrow>
      fit_init d f n c None None s = (Inl (ValueError ''no activated model'') :: error + 'i fit) \<and>
      gaussfit_init d f n c None None s = (Inl (ValueError ''no activated model'') :: error + 'i fit) \<and>
      hlfit_init d f n c None None s off = (Inl (ValueError ''no activated model'') :: error + 'i hlfit) \<and>
      (s \<in> set [''minuit'', ''dynesty'', ''emcee''] \<longrightarrow>
         ((\<exists>self. fit_init d f n c bg fg s = Inr (self :: 'i fit)
                    \<and> background self = bg \<and> foreground self = fg)
            \<longleftrightarrow> bg \<noteq> None \<or> fg \<noteq> None) \<and>
         ((\<exists>self. gaussfit_init d f n c bg fg s = Inr (self :: 'i fit)
                    \<and> background self = bg \<and> foreground self = fg)
            \<longleftrightarrow> bg \<noteq> None \<or> fg \<noteq> None) \<and>
         ((case off of None \<Rightarrow> True | Some a \<Rightarrow> shape a = shape n \<and> \<not> any_nan a) \<longrightarrow>
            ((\<exists>self. hlfit_init d f n c bg fg s off = Inr (self :: 'i hlfit)
                       \<and> background self = bg \<and> foreground self = fg)
               \<longleftrightarrow> bg \<noteq> None \<or> fg \<noteq> None))))"
  by (auto simp: gaussfit_init_def hlfit_init_def set_offset_def fit.defs hlfit.defs init_defs
           split: option.splits)

theorem no_model_is_refused_witness:
  "fit_init ex_data ex_data ex_noise ex_cov None None ''emcee''
     = (Inl (ValueError ''no activated model'') :: error + nat fit) \<and>
   (\<exists>self. fit_init ex_data ex_data ex_noise ex_cov None (Some ex_fg) ''emcee'' = Inr self
      \<and> background self = None \<and> foreground self = Some ex_fg) \<and>
   (\<exists>self. gaussfit_init ex_data ex_data ex_noise ex_cov None (Some ex_fg) ''emcee'' = Inr self
      \<and> background self = None \<and> foreground self = Some ex_fg) \<and>
   (\<exists>self. hlfit_init ex_data ex_data ex_noise ex_cov None (Some ex_fg) ''emcee'' None = Inr self
      \<and> background self = None \<and> foreground self = Some ex_fg)"
  using no_model_is_refused [of ex_data ex_data ex_noise ex_cov "''emcee''" None None "Some ex_fg"]
  by (simp add: ex_defs)

text \<open>
  C8, as the code has it. The claim is that arrays of mutually inconsistent shapes are
  refused when they are assigned. They are not: a noise array of shape \<open>(2,1,1,1)\<close> is
  accepted beside data of shape \<open>(1,1,1,1)\<close>, by the constructor and by a later
  assignment.
\<close>

theorem mismatched_shapes_are_accepted:
  "shape ex_wide \<noteq> shape ex_data \<and>
   fit_init ex_data ex_data ex_wide ex_cov (Some ex_bg) (Some ex_fg) ''emcee''
     = Inr (ex_fit\<lparr>noise := ex_wide\<rparr>) \<and>
   set_fiducial ex_wide ex_fit = Inr (ex_fit\<lparr>fiducial := ex_wide\<rparr>)"
  by (simp add: init_defs ex_defs ex_fit_def)

text \<open>
  C8, amended. Construction and assignment check every array on its own: data, fiducial
  and noise must have four dimensions and no NaN, the covariance two dimensions, equal
  extents and no NaN. Nothing compares the shape of one array with that of another, so
  construction succeeds exactly when each array passes its own check, a model is given
  and the solver name is known.
\<close>

theorem arrays_are_checked_one_by_one:
  "((\<exists>self. fit_init d f n c bg fg s = Inr (self :: 'i fit)) \<longleftrightarrow>
      ndim d = 4 \<and> \<not> any_nan d \<and> ndim f = 4 \<and> \<not> any_nan f \<and> ndim n = 4 \<and> \<not> any_nan n \<and>
      ndim c = 2 \<and> shape c ! 0 = shape c ! 1 \<and> \<not> any_nan c \<and>
      (bg \<noteq> None \<or> fg \<noteq> None) \<and> s \<in> set [''minuit'', ''dynesty'', ''emcee'']) \<and>
   set_data a self =
     (if ndim a \<noteq> 4 then Inl AssertionError
      else if any_nan a then Inl (ValueError ''encounter nan'') else Inr (self\<lparr>data := a\<rparr>)) \<and>
   set_fiducial a self =
     (if ndim a \<noteq> 4 then Inl AssertionError
      else if any_nan a then Inl (ValueError ''encounter nan'') else Inr (self\<lparr>fiducial := a\<rparr>)) \<and>
   set_noise a self =
     (if ndim a \<noteq> 4 then Inl AssertionError
      else if any_nan a then Inl (ValueError ''encounter nan'') else Inr (self\<lparr>noise := a\<rparr>)) \<and>
   set_covariance a self =
     (if ndim a \<noteq> 2 \<or> shape a ! 0 \<noteq> shape a ! 1 then Inl AssertionError
      else if any_nan a then Inl (ValueError ''encounter nan'') else Inr (self\<lparr>covariance := a\<rparr>))"
  by (auto simp: init_defs split: option.splits)

theorem arrays_are_checked_one_by_one_witness:
  "(\<exists>self. fit_init ex_data ex_wide ex_noise ex_cov None (Some ex_fg) ''minuit'' = Inr self) \<and>
   set_noise ex_cov ex_fit = Inl AssertionError \<and>
   set_data ex_wide ex_fit = Inr (ex_fit\<lparr>data := ex_wide\<rparr>)"
  using arrays_are_checked_one_by_one
          [of ex_data ex_wide ex_noise ex_cov None "Some ex_fg" "''minuit''" ex_wide ex_fit]
        arrays_are_checked_one_by_one
          [of ex_data ex_wide ex_noise ex_cov None "Some ex_fg" "''minuit''" ex_cov ex_fit]
  by (simp add: ex_defs)

subsection \<open>The active parameters\<close>

lemma diff_diff_union: "A - B - C = A - (B \<union> C)"
  by auto

lemma recompute_activelist_eq:
  "recompute_activelist self =
     self\<lparr>activelist := set (keys (params self)) - attached_blacklists self\<rparr>"
  by (simp add: recompute_activelist_def attached_blacklists_def Let_def diff_diff_union
        split: option.splits)

lemma active_iff:
  "name \<in> activelist (recompute_activelist self) \<longleftrightarrow>
     name \<in> set (keys (params self)) \<and> name \<notin> attached_blacklists self"
  by (simp add: recompute_activelist_eq)

text \<open>
  C7. \<^verbatim>\<open>run\<close> first sets the active parameters to the keys of the merged parameter
  dictionary minus the blacklist of each attached model, and changes nothing else; the
  old active set has no influence on the new one nor on the run; and the solver that the
  name selects is called on the object with the new active set.
\<close>

theorem active_set_is_recomputed:
  "recompute_activelist self =
     self\<lparr>activelist :=
       set (keys (params self))
         - (case background self of None \<Rightarrow> {} | Some bg \<Rightarrow> set (blacklist bg))
         - (case foreground self of None \<Rightarrow> {} | Some fg \<Rightarrow> set (blacklist fg))\<rparr> \<and>
   recompute_activelist (self\<lparr>activelist := old\<rparr>) = recompute_activelist self \<and>
   run mn es dn ext ll lsq (self\<lparr>activelist := old\<rparr>) kw = run mn es dn ext ll lsq self kw \<and>
   (solver self = ''minuit'' \<longrightarrow>
      run mn es dn ext ll lsq self kw = run_minuit mn ext lsq (Some kw) (recompute_activelist self)) \<and>
   (solver self = ''emcee'' \<longrightarrow>
      run mn es dn ext ll lsq self kw = run_emcee es ext ll (Some kw) (recompute_activelist self)) \<and>
   (solver self = ''dynesty'' \<longrightarrow>
      run mn es dn ext ll lsq self kw = run_dynesty dn ext ll (Some kw) (recompute_activelist self))"
proof -
  have a: "recompute_activelist (self\<lparr>activelist := old\<rparr>) = recompute_activelist self"
    by (simp add: recompute_activelist_def Let_def split: option.splits)
  have b: "run mn es dn ext ll lsq (self\<lparr>activelist := old\<rparr>) kw = run mn es dn ext ll lsq self kw"
    unfolding run_def a ..
  show ?thesis
    using a b by (auto simp: run_def Let_def recompute_activelist_def split: option.splits)
qed

theorem active_set_is_recomputed_witness:
  "activelist (recompute_activelist (ex_fit\<lparr>activelist := {''stale''}\<rparr>)) = {''r'', ''amp''}"
  by (subst active_set_is_recomputed [THEN conjunct1]) (auto simp: ex_fit_def ex_defs keys_def)

subsection \<open>The model setters\<close>

lemma keys_set_foreground:
  "set (keys (params (set_foreground m self))) =
     set (keys (params self)) \<union> (case m of None \<Rightarrow> {} | Some fg \<Rightarrow> set (keys (mparams fg)))"
  "set (keys (paramrange (set_foreground m self))) =
     set (keys (paramrange self)) \<union> (case m of None \<Rightarrow> {} | Some fg \<Rightarrow> set (keys (mparamrange fg)))"
  by (auto simp: set_foreground_def keys_dict_update split: option.splits)

lemma keys_set_background:
  "set (keys (params (set_background m self))) =
     set (keys (params self)) \<union> (case m of None \<Rightarrow> {} | Some bg \<Rightarrow> set (keys (mparams bg)))"
  "set (keys (paramrange (set_background m self))) =
     set (keys (paramrange self)) \<union> (case m of None \<Rightarrow> {} | Some bg \<Rightarrow> set (keys (mparamrange bg)))"
  by (auto simp: set_background_def keys_dict_update split: option.splits)

text \<open>
  C10. Either model setter keeps every key of the merged parameter and range
  dictionaries. So the names of a model \<open>old\<close> outlive its replacement by \<open>new\<close> (which
  may be \<^verbatim>\<open>None\<close>), and the next run counts such a name as active exactly when no
  blacklist of a model attached at that time holds it.
\<close>

theorem setters_only_merge:
  "set (keys (params self)) \<subseteq> set (keys (params (set_foreground m self))) \<and>
   set (keys (paramrange self)) \<subseteq> set (keys (paramrange (set_foreground m self))) \<and>
   set (keys (params self)) \<subseteq> set (keys (params (set_background m self))) \<and>
   set (keys (paramrange self)) \<subseteq> set (keys (paramrange (set_background m self))) \<and>
   (\<forall>name \<in> set (keys (mparams old)).
      name \<in> set (keys (params (set_foreground new (set_foreground (Some old) self)))) \<and>
      (name \<in> activelist (recompute_activelist (set_foreground new (set_foreground (Some old) self)))
         \<longleftrightarrow> name \<notin> attached_blacklists (set_foreground new (set_foreground (Some old) self))) \<and>
      name \<in> set (keys (params (set_background new (set_background (Some old) self)))) \<and>
      (name \<in> activelist (recompute_activelist (set_background new (set_background (Some old) self)))
         \<longleftrightarrow> name \<notin> attached_blacklists (set_background new (set_background (Some old) self)))) \<and>
   (\<forall>name \<in> set (keys (mparamrange old)).
      name \<in> set (keys (paramrange (set_foreground new (set_foreground (Some old) self)))) \<and>
      name \<in> set (keys (paramrange (set_background new (set_background (Some old) self)))))"
  by (simp add: keys_set_foreground keys_set_background active_iff)

theorem setters_only_merge_witness:
  "''beta'' \<in> set (keys (mparams ex_fg)) \<and>
   ''beta'' \<notin> set (keys (mparams ex_fg2)) \<and>
   ''beta'' \<in> set (keys (params (set_foreground (Some ex_fg2) (set_foreground (Some ex_fg) blank)))) \<and>
   ''beta'' \<in> activelist (recompute_activelist
                 (set_foreground (Some ex_fg2) (set_foreground (Some ex_fg) blank)))"
  using setters_only_merge [of blank _ ex_fg "Some ex_fg2"]
  by (simp add: ex_defs ex_fg2_def keys_def attached_blacklists_def set_foreground_def)

subsection \<open>The objective\<close>

lemma in_cube_not_outside:
  assumes "\<forall>c \<in> set cube. fl_le (Fin 0) c \<and> fl_le c (Fin 1)"
  shows "\<not> outside cube"
proof -
  have "\<not> fl_less (Fin 1) c \<and> \<not> fl_less c (Fin 0)" if "c \<in> set cube" for c
    using assms that by (cases c) auto
  then show ?thesis
    by (auto simp: outside_def list_ex_iff)
qed

lemma foreground_None_update: "foreground self = None \<Longrightarrow> self\<lparr>foreground := None\<rparr> = self"
proof -
  assume a: "foreground self = None"
  have "self\<lparr>foreground := foreground self\<rparr> = self" by simp
  then show ?thesis unfolding a .
qed

lemma background_None_update: "background self = None \<Longrightarrow> self\<lparr>background := None\<rparr> = self"
proof -
  assume a: "background self = None"
  have "self\<lparr>background := background self\<rparr> = self" by simp
  then show ?thesis unfolding a .
qed

lemma reset_loop_ok:
  assumes "\<forall>i \<in> set is. i < length cube \<and> map_of (paramrange self) (names ! i) \<noteq> None"
  shows "reset_loop ext names cube is self =
           (Inr (),
            self\<lparr>foreground :=
                   map_option (fold (\<lambda>i. reset (fgmodel ext) (names ! i)
                       (umap ext (cube ! i) (the (map_of (paramrange self) (names ! i))))) is)
                     (foreground self),
                 background :=
                   map_option (fold (\<lambda>i. reset (bgmodel ext) (names ! i)
                       (umap ext (cube ! i) (the (map_of (paramrange self) (names ! i))))) is)
                     (background self)\<rparr>)"
  using assms
proof (induction "is" arbitrary: self)
  case Nil
  show ?case by (simp add: option.map_ident)
next
  case (Cons i rest)
  from Cons.prems obtain r where r: "map_of (paramrange self) (names ! i) = Some r" and i: "i < length cube"
    by auto
  let ?tmp = "umap ext (cube ! i) r"
  let ?self2 = "self\<lparr>foreground := map_option (reset (fgmodel ext) (names ! i) ?tmp) (foreground self),
                     background := map_option (reset (bgmodel ext) (names ! i) ?tmp) (background self)\<rparr>"
  have step: "reset_loop ext names cube (i # rest) self = reset_loop ext names cube rest ?self2"
    using r i by (cases "foreground self"; cases "background self") (simp_all add: getitem_def Let_def foreground_None_update background_None_update)
  have pr: "paramrange ?self2 = paramrange self" by simp
  have "\<forall>j \<in> set rest. j < length cube \<and> map_of (paramrange ?self2) (names ! j) \<noteq> None"
    using Cons.prems by simp
  from Cons.IH [OF this] show ?case
    unfolding step by (simp add: r option.map_comp comp_def)
qed

lemma map_index_zip:
  "length xs \<le> length ys \<Longrightarrow> map (\<lambda>i. (xs ! i, ys ! i)) [0..<length xs] = zip xs ys"
  by (rule nth_equalityI) auto

lemma fold_index_zip:
  assumes "length xs \<le> length ys"
  shows "fold (\<lambda>i. f (xs ! i) (ys ! i)) [0..<length xs] = fold (\<lambda>(x, y). f x y) (zip xs ys)"
proof -
  have "fold (\<lambda>(x, y). f x y) (zip xs ys)
          = fold (\<lambda>(x, y). f x y) (map (\<lambda>i. (xs ! i, ys ! i)) [0..<length xs])"
    by (simp add: map_index_zip [OF assms])
  also have "\<dots> = fold (\<lambda>i. f (xs ! i) (ys ! i)) [0..<length xs]"
    by (simp add: fold_map comp_def)
  finally show ?thesis by simp
qed

lemma spec_reset_all_index:
  assumes "length names \<le> length cube"
  shows "spec_reset_all cls (map2 (\<lambda>name c. (name, umap ext c (the (map_of pr name)))) names cube) =
           fold (\<lambda>i. reset cls (names ! i) (umap ext (cube ! i) (the (map_of pr (names ! i)))))
             [0..<length names]"
  unfolding spec_reset_all_def
  by (simp add: fold_map comp_def case_prod_unfold
        fold_index_zip [OF assms, where f = "\<lambda>n c. reset cls n (umap ext c (the (map_of pr n)))"])

lemma loop_then_predict:
  assumes "length names \<le> length cube"
      and "\<forall>name \<in> set names. map_of (paramrange self) name \<noteq> None"
  shows "(case reset_loop ext names cube [0..<length names] self of
             (Inl e, self') \<Rightarrow> (Inl e, self')
           | (Inr _, self') \<Rightarrow> predict ext stat self')
         = spec_predict ext stat self
             (map2 (\<lambda>name c. (name, umap ext c (the (map_of (paramrange self) name)))) names cube)"
proof -
  have "\<forall>i \<in> set [0..<length names]. i < length cube \<and> map_of (paramrange self) (names ! i) \<noteq> None"
    using assms by auto
  note loop = reset_loop_ok [OF this]
  show ?thesis
    unfolding loop spec_predict_def spec_reset_all_index [OF assms(1)]
    by (cases "foreground self"; cases "background self")
       (simp_all add: predict_def Let_def foreground_None_update background_None_update
          split: prod.splits)
qed

text \<open>
  C1. For a cube point with every coordinate in \<open>[0,1]\<close>, one coordinate for each active
  name, and a range declared for each active name, \<^verbatim>\<open>_core_likelihood\<close> and
  \<^verbatim>\<open>_core_lsq\<close> do what the specification describes: the sorted active names are
  paired with the coordinates, each coordinate is mapped by \<^verbatim>\<open>umap\<close> into the range of
  its name, every attached model is reset with every one of these updates, the prediction
  is the sum of the two band-powers or the band-power of the only model, and the result is
  \<^verbatim>\<open>loglikeli\<close>, respectively \<^verbatim>\<open>lsq\<close>, of the prediction.
\<close>

theorem objective_in_cube:
  assumes "\<forall>c \<in> set cube. fl_le (Fin 0) c \<and> fl_le c (Fin 1)"
      and "card (activelist self) \<le> length cube"
      and "\<forall>name \<in> set (sorted_list_of_set (activelist self)). map_of (paramrange self) name \<noteq> None"
  shows "core_likelihood ext loglikeli self cube = spec_objective ext loglikeli self cube \<and>
         core_lsq ext lsq self cube = spec_objective ext lsq self cube"
proof -
  let ?names = "sorted_list_of_set (activelist self)"
  have len: "length ?names \<le> length cube"
    using assms(2) by simp
  show ?thesis
    using in_cube_not_outside [OF assms(1)]
    unfolding core_likelihood_def core_lsq_def Let_def
      loop_then_predict [OF len assms(3)] spec_objective_def spec_updates_def
    by simp
qed

lemma ex_add:
  "array_add \<lparr>shape = [Suc 0, Suc 0, Suc 0, Suc 0], vals = [Fin a]\<rparr>
     \<lparr>shape = [Suc 0, Suc 0, Suc 0, Suc 0], vals = [Fin b]\<rparr>
   = Inr \<lparr>shape = [Suc 0, Suc 0, Suc 0, Suc 0], vals = [Fin (a + b)]\<rparr>"
  by (simp add: array_add_def elementwise_def broadcast_shape_def indices_def position_def)

lemma ex_sub:
  "array_sub \<lparr>shape = [Suc 0, Suc 0, Suc 0, Suc 0], vals = [Fin a]\<rparr>
     \<lparr>shape = [Suc 0, Suc 0, Suc 0, Suc 0], vals = [Fin b]\<rparr>
   = Inr \<lparr>shape = [Suc 0, Suc 0, Suc 0, Suc 0], vals = [Fin (a - b)]\<rparr>"
  by (simp add: array_sub_def elementwise_def broadcast_shape_def indices_def position_def
        fl_sub_def)

lemmas ex_eval =
  ex_active_def ex_fit_def ex_data_def ex_noise_def ex_cov_def ex_fg_def ex_bg_def
  ex_ext_def ex_methods_def ex_add ex_sub Let_def
  gauss_loglikeli_def gauss_lsq_def gauss_diff_def weighted_def vdot_def fl_sub_def

theorem objective_in_cube_witness:
  "fst (core_likelihood ex_ext (gauss_loglikeli ex_ext) ex_active [Fin (1 / 2), Fin (1 / 4)])
     = Inr (Fin (- (289 / 32))) \<and>
   fst (core_lsq ex_ext (gauss_lsq ex_ext) ex_active [Fin (1 / 2), Fin (1 / 4)])
     = Inr (Fin (289 / 16))"
proof -
  have h1: "\<forall>c \<in> set [Fin (1 / 2), Fin (1 / 4)]. fl_le (Fin 0) c \<and> fl_le c (Fin 1)"
    by simp
  have h2: "card (activelist ex_active) \<le> length [Fin (1 / 2), Fin (1 / 4)]"
    by (simp add: ex_active_def)
  have h3: "\<forall>name \<in> set (sorted_list_of_set (activelist ex_active)).
              map_of (paramrange ex_active) name \<noteq> None"
    by (simp add: ex_active_def ex_fit_def)
  note eq = objective_in_cube [OF h1 h2 h3, of ex_ext "gauss_loglikeli ex_ext" "gauss_lsq ex_ext"]
  have a: "fst (spec_objective ex_ext (gauss_loglikeli ex_ext) ex_active [Fin (1 / 2), Fin (1 / 4)])
             = Inr (Fin (- (289 / 32)))"
    by (simp add: spec_objective_def spec_updates_def spec_predict_def spec_reset_all_def ex_eval)
  have b: "fst (spec_objective ex_ext (gauss_lsq ex_ext) ex_active [Fin (1 / 2), Fin (1 / 4)])
             = Inr (Fin (289 / 16))"
    by (simp add: spec_objective_def spec_updates_def spec_predict_def spec_reset_all_def ex_eval)
  show ?thesis
    using a b unfolding eq [THEN conjunct1] eq [THEN conjunct2] by simp
qed

text \<open>
  C2. A cube point with a coordinate above 1 or below 0 makes \<^verbatim>\<open>_core_likelihood\<close>
  return \<^verbatim>\<open>nan_to_num(-inf)\<close> and \<^verbatim>\<open>_core_lsq\<close> return \<^verbatim>\<open>nan_to_num(inf)\<close>,
  the finite extremes and not NaN. The fit object and its models come back as they were,
  whatever the methods of the models do when called, and the result is the same for every
  statistic: no model is called and no statistic is evaluated.
\<close>

theorem outside_cube_short_circuit:
  assumes "\<exists>c \<in> set cube. fl_less (Fin 1) c \<or> fl_less c (Fin 0)"
  shows "core_likelihood ext loglikeli self cube = (Inr (nan_to_num NInf), self) \<and>
         core_lsq ext lsq self cube = (Inr (nan_to_num PInf), self) \<and>
         nan_to_num NInf = Fin (- float_max) \<and> nan_to_num PInf = Fin float_max \<and>
         isfinite (nan_to_num NInf) \<and> isfinite (nan_to_num PInf) \<and>
         \<not> isnan (nan_to_num NInf) \<and> \<not> isnan (nan_to_num PInf)"
proof -
  have "outside cube"
    using assms by (auto simp: outside_def list_ex_iff)
  then show ?thesis
    by (simp add: core_likelihood_def core_lsq_def)
qed

theorem outside_cube_short_circuit_witness:
  "core_likelihood ex_ext (gauss_loglikeli ex_ext) ex_active [Fin (1 / 2), Fin (5 / 4)]
     = (Inr (Fin (- float_max)), ex_active) \<and>
   core_lsq ex_ext (gauss_lsq ex_ext) ex_active [Fin (1 / 2), Fin (5 / 4)]
     = (Inr (Fin float_max), ex_active)"
proof -
  have h: "\<exists>c \<in> set [Fin (1 / 2), Fin (5 / 4)]. fl_less (Fin 1) c \<or> fl_less c (Fin 0)"
    by simp
  show ?thesis
    using outside_cube_short_circuit [OF h, of ex_ext "gauss_loglikeli ex_ext" ex_active
              "gauss_lsq ex_ext"]
    by simp
qed

subsection \<open>The statistics\<close>

lemma isnan_half: "isnan (fl_mul (Fin (- (1 / 2))) q) = isnan q"
  by (cases q) auto

lemma hits_clamp_half:
  "hits_clamp (fl_mul (Fin (- (1 / 2)))) ext cov d = hits_clamp id ext cov d"
  by (auto simp: hits_clamp_def isnan_half split: sum.splits)

lemma gauss_forms:
  assumes "\<not> hits_clamp id ext (covariance self) (gauss_diff ext self p)"
  shows "gauss_loglikeli ext self p = map_sum id (fl_mul (Fin (- (1 / 2)))) (gauss_lsq ext self p)"
proof (cases "gauss_diff ext self p")
  case (Inl e)
  then show ?thesis by (simp add: gauss_loglikeli_def gauss_lsq_def)
next
  case (Inr diff)
  show ?thesis
  proof (cases "weighted ext (covariance self) diff")
    case (Inl e)
    then show ?thesis using Inr by (simp add: gauss_loglikeli_def gauss_lsq_def)
  next
    case q: (Inr q)
    then show ?thesis
      using Inr assms by (auto simp: gauss_loglikeli_def gauss_lsq_def hits_clamp_def isnan_half Let_def)
  qed
qed

lemma hl_forms:
  assumes "\<not> hits_clamp id ext (covariance self) (hl_diff ext self p)"
  shows "hl_loglikeli ext self p = map_sum id (fl_mul (Fin (- (1 / 2)))) (hl_lsq ext self p)"
proof (cases "hl_diff ext self p")
  case (Inl e)
  then show ?thesis by (simp add: hl_loglikeli_def hl_lsq_def)
next
  case (Inr diff)
  show ?thesis
  proof (cases "weighted ext (covariance self) diff")
    case (Inl e)
    then show ?thesis using Inr by (simp add: hl_loglikeli_def hl_lsq_def)
  next
    case q: (Inr q)
    then show ?thesis
      using Inr assms by (auto simp: hl_loglikeli_def hl_lsq_def hits_clamp_def isnan_half Let_def)
  qed
qed

text \<open>
  C3. For \<^verbatim>\<open>gaussfit\<close> and for \<^verbatim>\<open>hlfit\<close>, and for every prediction on which
  neither form runs into its NaN clamp, \<^verbatim>\<open>loglikeli\<close> is \<^verbatim>\<open>lsq\<close> times \<open>-1/2\<close>:
  the two return the same error when the shape, the residual or the solve fails, and
  otherwise the log-likelihood is \<open>-1/2\<close> times the chi-square.
\<close>

theorem loglikeli_is_minus_half_lsq:
  "(\<not> hits_clamp (fl_mul (Fin (- (1 / 2)))) ext (covariance self) (gauss_diff ext self p) \<and>
    \<not> hits_clamp id ext (covariance self) (gauss_diff ext self p) \<longrightarrow>
      gauss_loglikeli ext self p = map_sum id (fl_mul (Fin (- (1 / 2)))) (gauss_lsq ext self p)) \<and>
   (\<not> hits_clamp (fl_mul (Fin (- (1 / 2)))) ext (covariance hself) (hl_diff ext hself p) \<and>
    \<not> hits_clamp id ext (covariance hself) (hl_diff ext hself p) \<longrightarrow>
      hl_loglikeli ext hself p = map_sum id (fl_mul (Fin (- (1 / 2)))) (hl_lsq ext hself p))"
  using gauss_forms hl_forms by blast

theorem loglikeli_is_minus_half_lsq_witness:
  "gauss_lsq ex_ext ex_fit (ex_pred (Fin 5)) = Inr (Fin 16) \<and>
   gauss_loglikeli ex_ext ex_fit (ex_pred (Fin 5)) = Inr (Fin (- 8)) \<and>
   hl_lsq ex_ext ex_hlfit (ex_pred (Fin 5)) = Inr (Fin 16) \<and>
   hl_loglikeli ex_ext ex_hlfit (ex_pred (Fin 5)) = Inr (Fin (- 8))"
proof -
  have g: "gauss_diff ex_ext ex_fit (ex_pred (Fin 5)) = Inr [Fin 4]"
    by (simp add: gauss_diff_def ex_pred_def ex_fit_def ex_data_def ex_noise_def ex_add ex_sub
          ex_ext_def)
  have h: "hl_diff ex_ext ex_hlfit (ex_pred (Fin 5)) = Inr [Fin 4]"
    by (simp add: hl_diff_def ex_pred_def ex_hlfit_def ex_data_def ex_noise_def ex_add
          ex_ext_def zeros_like_def fl_sub_def)
  have w: "weighted ex_ext c [Fin 4] = Inr (Fin 16)" for c
    by (simp add: weighted_def vdot_def ex_ext_def)
  have gl: "gauss_lsq ex_ext ex_fit (ex_pred (Fin 5)) = Inr (Fin 16)"
    by (simp add: gauss_lsq_def g w) (simp add: ex_pred_def ex_fit_def ex_data_def)
  have hl: "hl_lsq ex_ext ex_hlfit (ex_pred (Fin 5)) = Inr (Fin 16)"
    by (simp add: hl_lsq_def h w) (simp add: ex_pred_def ex_hlfit_def ex_data_def)
  have ng: "\<not> hits_clamp scale ex_ext (covariance ex_fit) (gauss_diff ex_ext ex_fit (ex_pred (Fin 5)))"
    if "\<not> isnan (scale (Fin 16))" for scale
    using that by (simp add: hits_clamp_def g w)
  have nh: "\<not> hits_clamp scale ex_ext (covariance ex_hlfit) (hl_diff ex_ext ex_hlfit (ex_pred (Fin 5)))"
    if "\<not> isnan (scale (Fin 16))" for scale
    using that by (simp add: hits_clamp_def h w)
  show ?thesis
    using loglikeli_is_minus_half_lsq [of ex_ext ex_fit "ex_pred (Fin 5)" ex_hlfit]
      ng [of id] ng [of "fl_mul (Fin (- (1 / 2)))"] nh [of id] nh [of "fl_mul (Fin (- (1 / 2)))"]
    by (simp add: gl hl)
qed

text \<open>
  C4. For both variants, \<^verbatim>\<open>loglikeli\<close> and \<^verbatim>\<open>lsq\<close> fail with the assertion on the
  shape when the prediction is not shaped like the data; they raise
  \<^verbatim>\<open>ValueError('encounter nan')\<close> when the residual vector holds a NaN; and when the
  residual is free of NaN and the weighted product comes out as NaN, \<^verbatim>\<open>loglikeli\<close>
  returns the finite \<^verbatim>\<open>nan_to_num(-inf)\<close> and \<^verbatim>\<open>lsq\<close> the finite
  \<^verbatim>\<open>nan_to_num(inf)\<close>.
\<close>

theorem statistic_failures:
  "(shape p \<noteq> shape (data self) \<longrightarrow>
      gauss_loglikeli ext self p = Inl AssertionError \<and> gauss_lsq ext self p = Inl AssertionError) \<and>
   (shape p \<noteq> shape (data hself) \<longrightarrow>
      hl_loglikeli ext hself p = Inl AssertionError \<and> hl_lsq ext hself p = Inl AssertionError) \<and>
   (shape p = shape (data self) \<and> gauss_diff ext self p = Inr diff \<and> list_ex isnan diff \<longrightarrow>
      gauss_loglikeli ext self p = Inl (ValueError ''encounter nan'') \<and>
      gauss_lsq ext self p = Inl (ValueError ''encounter nan'')) \<and>
   (shape p = shape (data hself) \<and> hl_diff ext hself p = Inr diff \<and> list_ex isnan diff \<longrightarrow>
      hl_loglikeli ext hself p = Inl (ValueError ''encounter nan'') \<and>
      hl_lsq ext hself p = Inl (ValueError ''encounter nan'')) \<and>
   (shape p = shape (data self) \<and> gauss_diff ext self p = Inr diff \<and> \<not> list_ex isnan diff \<and>
    weighted ext (covariance self) diff = Inr NaN \<longrightarrow>
      gauss_loglikeli ext self p = Inr (nan_to_num NInf) \<and>
      gauss_lsq ext self p = Inr (nan_to_num PInf)) \<and>
   (shape p = shape (data hself) \<and> hl_diff ext hself p = Inr diff \<and> \<not> list_ex isnan diff \<and>
    weighted ext (covariance hself) diff = Inr NaN \<longrightarrow>
      hl_loglikeli ext hself p = Inr (nan_to_num NInf) \<and>
      hl_lsq ext hself p = Inr (nan_to_num PInf)) \<and>
   nan_to_num NInf = Fin (- float_max) \<and> nan_to_num PInf = Fin float_max"
  by (simp add: gauss_loglikeli_def gauss_lsq_def hl_loglikeli_def hl_lsq_def)

theorem statistic_failures_witness:
  "gauss_lsq ex_ext ex_fit ex_wide = Inl AssertionError \<and>
   hl_loglikeli ex_ext ex_hlfit ex_wide = Inl AssertionError \<and>
   gauss_loglikeli ex_ext ex_fit (ex_pred NaN) = Inl (ValueError ''encounter nan'') \<and>
   hl_lsq ex_ext ex_hlfit (ex_pred NaN) = Inl (ValueError ''encounter nan'') \<and>
   gauss_loglikeli ex_degenerate ex_fit (ex_pred (Fin 5)) = Inr (Fin (- float_max)) \<and>
   gauss_lsq ex_degenerate ex_fit (ex_pred (Fin 5)) = Inr (Fin float_max) \<and>
   hl_loglikeli ex_degenerate ex_hlfit (ex_pred (Fin 5)) = Inr (Fin (- float_max)) \<and>
   hl_lsq ex_degenerate ex_hlfit (ex_pred (Fin 5)) = Inr (Fin float_max)"
proof -
  have s1: "shape ex_wide = [2, 1, 1, 1]"
    by (simp add: ex_wide_def)
  have s2: "shape (ex_pred v) = [1, 1, 1, 1]" "shape (data ex_fit) = [1, 1, 1, 1]"
    "shape (data ex_hlfit) = [1, 1, 1, 1]" for v
    by (simp_all add: ex_pred_def ex_fit_def ex_hlfit_def ex_data_def)
  have gn: "gauss_diff ex_ext ex_fit (ex_pred NaN) = Inr [NaN]"
    by (simp add: gauss_diff_def ex_pred_def ex_fit_def ex_data_def ex_noise_def ex_ext_def
          fl_sub_def array_add_def array_sub_def elementwise_def broadcast_shape_def indices_def position_def)
  have hn: "hl_diff ex_ext ex_hlfit (ex_pred NaN) = Inr [NaN]"
    by (simp add: hl_diff_def ex_pred_def ex_hlfit_def ex_data_def ex_noise_def ex_ext_def
          zeros_like_def fl_sub_def
          array_add_def array_sub_def elementwise_def broadcast_shape_def indices_def position_def)
  have g: "gauss_diff ex_degenerate ex_fit (ex_pred (Fin 5)) = Inr [Fin 4]"
    by (simp add: gauss_diff_def ex_pred_def ex_fit_def ex_data_def ex_noise_def ex_add ex_sub
          ex_ext_def ex_degenerate_def)
  have h: "hl_diff ex_degenerate ex_hlfit (ex_pred (Fin 5)) = Inr [Fin 4]"
    by (simp add: hl_diff_def ex_pred_def ex_hlfit_def ex_data_def ex_noise_def ex_add
          ex_ext_def ex_degenerate_def zeros_like_def fl_sub_def)
  have w: "weighted ex_degenerate c [Fin 4] = Inr NaN" for c
    by (simp add: weighted_def vdot_def ex_ext_def ex_degenerate_def)
  show ?thesis
    using statistic_failures [of ex_wide ex_fit ex_ext ex_hlfit "[]"]
      statistic_failures [of "ex_pred NaN" ex_fit ex_ext ex_hlfit "[NaN]"]
      statistic_failures [of "ex_pred (Fin 5)" ex_fit ex_degenerate ex_hlfit "[Fin 4]"]
    by (simp add: s1 s2 gn hn g h w)
qed

subsection \<open>The solver adapters\<close>

text \<open>
  C5, at the input where the code departs from it. \<^verbatim>\<open>run\<close> always hands its options
  to \<^verbatim>\<open>run_emcee\<close>, so the default of that parameter never applies on this path:
  with the options \<^verbatim>\<open>{}\<close> the lookup of \<^verbatim>\<open>'nwalker'\<close> raises \<^verbatim>\<open>KeyError\<close>,
  and with the walker count alone the lookup of \<^verbatim>\<open>'nstep'\<close> does. Only a direct call
  of \<^verbatim>\<open>run_emcee\<close> without argument runs with 100 walkers and 10000 steps.
\<close>

theorem run_emcee_needs_both_options:
  "run mn es dn ex_ext (gauss_loglikeli ex_ext) (gauss_lsq ex_ext) ex_fit []
     = (Inl (KeyError ''nwalker''), ex_fit\<lparr>activelist := {''amp'', ''r''}\<rparr>) \<and>
   run mn es dn ex_ext (gauss_loglikeli ex_ext) (gauss_lsq ex_ext) ex_fit [(''nwalker'', 50)]
     = (Inl (KeyError ''nstep''), ex_fit\<lparr>activelist := {''amp'', ''r''}\<rparr>) \<and>
   run_emcee es ext ll None self = run_emcee es ext ll (Some emcee_defaults) self"
proof -
  have a: "recompute_activelist ex_fit = ex_fit\<lparr>activelist := {''amp'', ''r''}\<rparr>"
    by (auto simp: recompute_activelist_eq attached_blacklists_def ex_fit_def ex_fg_def ex_bg_def
          keys_def)
  have s: "solver (ex_fit\<lparr>activelist := A\<rparr>) = ''emcee''" for A
    by (simp add: ex_fit_def)
  show ?thesis
    by (simp add: run_def a s Let_def run_emcee_def getitem_def)
qed

lemma enumerate_map_enumerate:
  "enumerate 0 (map (\<lambda>(j, v). h j v) (enumerate 0 xs)) = map (\<lambda>(j, v). (j, h j v)) (enumerate 0 xs)"
  by (rule nth_equalityI) (simp_all add: nth_enumerate_eq)

lemma remap_columns_set:
  assumes "ndim a = 2" and "distinct is"
      and "\<forall>i \<in> set is. i < shape a ! 1 \<and> map_of pr (names ! i) \<noteq> None"
  shows "remap_columns ext pr names is a =
           Inr (a\<lparr>vals := map (\<lambda>(j, v). if j mod (shape a ! 1) \<in> set is
                                      then umap ext v (the (map_of pr (names ! (j mod (shape a ! 1)))))
                                      else v)
                         (enumerate 0 (vals a))\<rparr>)"
  using assms
proof (induction "is" arbitrary: a)
  case Nil
  have "map (\<lambda>(j, v). v) (enumerate 0 (vals a)) = vals a"
    by (rule nth_equalityI) (simp_all add: nth_enumerate_eq)
  then show ?case by simp
next
  case (Cons i rest)
  from Cons.prems obtain r where r: "map_of pr (names ! i) = Some r" and i: "i < shape a ! 1"
    by auto
  let ?n = "shape a ! 1"
  let ?a1 = "a\<lparr>vals := map (\<lambda>(j, v). if j mod ?n = i then umap ext v r else v) (enumerate 0 (vals a))\<rparr>"
  have mc: "map_column (\<lambda>v. umap ext v r) i a = Inr ?a1"
    using Cons.prems(1) i by (simp add: map_column_def)
  have p1: "ndim ?a1 = 2" using Cons.prems(1) by (simp add: ndim_def)
  have p2: "distinct rest" using Cons.prems(2) by simp
  have p3: "\<forall>k \<in> set rest. k < shape ?a1 ! 1 \<and> map_of pr (names ! k) \<noteq> None"
    using Cons.prems(3) by simp
  have step: "remap_columns ext pr names (i # rest) a = remap_columns ext pr names rest ?a1"
    by (simp add: getitem_def r mc)
  have inot: "i \<notin> set rest" using Cons.prems(2) by simp
  have sh: "shape ?a1 = shape a" by simp
  have "map (\<lambda>(j, v). if j mod (shape ?a1 ! 1) \<in> set rest
                        then umap ext v (the (map_of pr (names ! (j mod (shape ?a1 ! 1))))) else v)
          (enumerate 0 (vals ?a1))
        = map (\<lambda>(j, v). if j mod ?n \<in> set (i # rest)
                        then umap ext v (the (map_of pr (names ! (j mod ?n)))) else v)
            (enumerate 0 (vals a))"
    unfolding sh
  proof (rule nth_equalityI)
    show "length (map (\<lambda>(j, v). if j mod ?n \<in> set rest
                        then umap ext v (the (map_of pr (names ! (j mod ?n)))) else v)
                   (enumerate 0 (vals ?a1)))
          = length (map (\<lambda>(j, v). if j mod ?n \<in> set (i # rest)
                        then umap ext v (the (map_of pr (names ! (j mod ?n)))) else v)
                   (enumerate 0 (vals a)))"
      by simp
  next
    fix k
    assume "k < length (map (\<lambda>(j, v). if j mod ?n \<in> set rest
                        then umap ext v (the (map_of pr (names ! (j mod ?n)))) else v)
                   (enumerate 0 (vals ?a1)))"
    then have k: "k < length (vals a)" by simp
    show "map (\<lambda>(j, v). if j mod ?n \<in> set rest
                        then umap ext v (the (map_of pr (names ! (j mod ?n)))) else v)
                   (enumerate 0 (vals ?a1)) ! k
          = map (\<lambda>(j, v). if j mod ?n \<in> set (i # rest)
                        then umap ext v (the (map_of pr (names ! (j mod ?n)))) else v)
                   (enumerate 0 (vals a)) ! k"
      using k inot r by (auto simp: nth_enumerate_eq)
  qed
  then show ?case
    unfolding step Cons.IH [OF p1 p2 p3] by simp
qed

lemma remap_columns_upt:
  assumes "ndim a = 2" and "length names \<le> shape a ! 1"
      and "\<forall>name \<in> set names. map_of pr name \<noteq> None"
  shows "remap_columns ext pr names [0..<length names] a = Inr (remapped ext pr names a)"
proof -
  have "\<forall>i \<in> set [0..<length names]. i < shape a ! 1 \<and> map_of pr (names ! i) \<noteq> None"
    using assms(2,3) by auto
  from remap_columns_set [OF assms(1) _ this] show ?thesis
    by (simp add: remapped_def)
qed

lemma remap_columns_shape:
  "remap_columns ext pr names is a = Inr b \<Longrightarrow> shape b = shape a"
proof (induction "is" arbitrary: a)
  case Nil
  then show ?case by simp
next
  case (Cons i rest)
  then show ?case
    by (auto simp: getitem_def map_column_def split: option.splits if_splits)
qed

text \<open>
  C6. \<^verbatim>\<open>prior\<close> is the identity. \<^verbatim>\<open>run_dynesty\<close> builds the sampler from
  \<^verbatim>\<open>_core_likelihood\<close>, \<^verbatim>\<open>prior\<close> and the number of active names, and when the run
  succeeds on a two-dimensional sample array with a column for each active name, each
  with a range, it returns the result object of the sampler with the samples remapped
  column by column. Whenever it returns a result object, that object differs from the
  one of the sampler in the entries of \<^verbatim>\<open>samples\<close> at most: every other field and the
  shape of the samples are the same.
\<close>

theorem run_dynesty_remaps_samples_only:
  "(\<forall>cube. prior cube = cube) \<and>
   (run_nested api (DynamicNestedSampler api (core_likelihood ext ll) prior (card (activelist self)))
        (case kw of None \<Rightarrow> [] | Some d \<Rightarrow> d) self = (Inr sampler, self') \<and>
    ndim (samples (results api sampler)) = 2 \<and>
    card (activelist self') \<le> shape (samples (results api sampler)) ! 1 \<and>
    (\<forall>name \<in> set (sorted_list_of_set (activelist self')). map_of (paramrange self') name \<noteq> None) \<longrightarrow>
      run_dynesty api ext ll kw self
        = (Inr (Nested ((results api sampler)\<lparr>samples :=
                 remapped ext (paramrange self') (sorted_list_of_set (activelist self'))
                   (samples (results api sampler))\<rparr>)), self')) \<and>
   (run_dynesty api ext ll kw self = (Inr (Nested res), self') \<longrightarrow>
      (\<exists>sampler.
         run_nested api (DynamicNestedSampler api (core_likelihood ext ll) prior (card (activelist self)))
           (case kw of None \<Rightarrow> [] | Some d \<Rightarrow> d) self = (Inr sampler, self') \<and>
         dresults.more res = dresults.more (results api sampler) \<and>
         shape (samples res) = shape (samples (results api sampler))))"
proof (intro conjI impI)
  show "\<forall>cube. prior cube = cube"
    by (simp add: prior_def)
next
  let ?names = "sorted_list_of_set (activelist self')"
  assume a: "run_nested api (DynamicNestedSampler api (core_likelihood ext ll) prior (card (activelist self)))
        (case kw of None \<Rightarrow> [] | Some d \<Rightarrow> d) self = (Inr sampler, self') \<and>
    ndim (samples (results api sampler)) = 2 \<and>
    card (activelist self') \<le> shape (samples (results api sampler)) ! 1 \<and>
    (\<forall>name \<in> set ?names. map_of (paramrange self') name \<noteq> None)"
  then have len: "length ?names \<le> shape (samples (results api sampler)) ! 1"
    by simp
  from a have r: "remap_columns ext (paramrange self') ?names [0..<length ?names]
                    (samples (results api sampler))
                  = Inr (remapped ext (paramrange self') ?names (samples (results api sampler)))"
    using remap_columns_upt [OF _ len] by blast
  show "run_dynesty api ext ll kw self
        = (Inr (Nested ((results api sampler)\<lparr>samples :=
                 remapped ext (paramrange self') ?names (samples (results api sampler))\<rparr>)), self')"
    using a unfolding run_dynesty_def Let_def by (simp add: r [simplified])
next
  assume a: "run_dynesty api ext ll kw self = (Inr (Nested res), self')"
  let ?run = "run_nested api
                (DynamicNestedSampler api (core_likelihood ext ll) prior (card (activelist self)))
                (case kw of None \<Rightarrow> [] | Some d \<Rightarrow> d) self"
  obtain o1 s1 where run: "?run = (o1, s1)" by (cases ?run)
  show "\<exists>sampler. ?run = (Inr sampler, self') \<and>
          dresults.more res = dresults.more (results api sampler) \<and>
          shape (samples res) = shape (samples (results api sampler))"
  proof (cases o1)
    case (Inl e)
    then show ?thesis using a run by (simp add: run_dynesty_def Let_def)
  next
    case (Inr sampler)
    let ?names = "sorted_list_of_set (activelist s1)"
    let ?rc = "remap_columns ext (paramrange s1) ?names [0..<card (activelist s1)]
                 (samples (results api sampler))"
    have "run_dynesty api ext ll kw self
            = (and_then ?rc (\<lambda>s. Inr (Nested ((results api sampler)\<lparr>samples := s\<rparr>))), s1)"
      by (simp add: run_dynesty_def Let_def run Inr)
    from this [symmetric] a have b:
      "(and_then ?rc (\<lambda>s. Inr (Nested ((results api sampler)\<lparr>samples := s\<rparr>))), s1)
         = (Inr (Nested res), self')"
      by (rule trans)
    then have s1: "s1 = self'"
      and b1: "and_then ?rc (\<lambda>s. Inr (Nested ((results api sampler)\<lparr>samples := s\<rparr>)))
                 = Inr (Nested res)"
      by auto
    show ?thesis
    proof (cases ?rc)
      case (Inl e)
      then show ?thesis using b1 by simp
    next
      case rc: (Inr arr)
      then have "res = (results api sampler)\<lparr>samples := arr\<rparr>" using b1 by simp
      moreover have "shape arr = shape (samples (results api sampler))"
        using remap_columns_shape [OF rc] .
      ultimately show ?thesis using run Inr s1 by simp
    qed
  qed
qed

theorem run_dynesty_remaps_samples_only_witness:
  "run_dynesty ex_dynesty ex_ext (gauss_loglikeli ex_ext) None ex_active
     = (Inr (Nested \<lparr>samples = \<lparr>shape = [2, 2], vals = [Fin 0, Fin (1 / 2), Fin 10, Fin (1 / 4)]\<rparr>,
                      logz = Fin 7\<rparr>), ex_active)"
proof -
  let ?s = "\<lparr>shape = [2, 2], vals = [Fin 0, Fin (1 / 2), Fin 1, Fin (1 / 4)]\<rparr>"
  have act: "activelist ex_active = {''amp'', ''r''}"
    by (simp add: ex_active_def)
  have names: "sorted_list_of_set (activelist ex_active) = [''amp'', ''r'']"
    unfolding act by simp
  have pr: "paramrange ex_active = [(''r'', (Fin 0, Fin 1)), (''beta'', (Fin 0, Fin 4)),
                                    (''amp'', (Fin 0, Fin 10))]"
    by (simp add: ex_active_def ex_fit_def)
  have run: "run_nested ex_dynesty
               (DynamicNestedSampler ex_dynesty (core_likelihood ex_ext (gauss_loglikeli ex_ext)) prior
                  (card (activelist ex_active)))
               (case None of None \<Rightarrow> [] | Some d \<Rightarrow> d) ex_active = (Inr ?s, ex_active)"
    by (simp add: ex_dynesty_def act prior_def)
  have res: "results ex_dynesty ?s = \<lparr>samples = ?s, logz = Fin 7\<rparr>"
    by (simp add: ex_dynesty_def)
  have h: "ndim (samples (results ex_dynesty ?s)) = 2 \<and>
           card (activelist ex_active) \<le> shape (samples (results ex_dynesty ?s)) ! 1 \<and>
           (\<forall>name \<in> set (sorted_list_of_set (activelist ex_active)).
              map_of (paramrange ex_active) name \<noteq> None)"
    unfolding names res pr by (simp add: ndim_def act)
  have rm: "remapped ex_ext (paramrange ex_active) (sorted_list_of_set (activelist ex_active)) ?s
              = \<lparr>shape = [2, 2], vals = [Fin 0, Fin (1 / 2), Fin 10, Fin (1 / 4)]\<rparr>"
    unfolding names pr by (simp add: remapped_def ex_ext_def fl_sub_def)
  from run_dynesty_remaps_samples_only
         [THEN conjunct2, THEN conjunct1, rule_format, OF conjI [OF run h]]
  show ?thesis
    by (simp add: res rm)
qed

end
